theory Spec2Isabelle
  imports Complex_Main "HOL-Library.AList" "HOL-Library.Sublist"
begin

section \<open>Dynamic values and tool arguments (types.go)\<close>

text \<open>
  Go's \<^verbatim>\<open>interface{}\<close> values, as far as this package inspects them. A decoded JSON
  document holds \<open>VNil\<close>, \<open>VBool\<close>, \<open>VFloat64\<close>, \<open>VString\<close>, \<open>VSlice\<close> and \<open>VMap\<close>;
  \<open>VInt\<close> and \<open>VInt64\<close> are the Go integers that \<^verbatim>\<open>GetInt\<close> also accepts and that the
  handlers themselves put into result maps. A \<^verbatim>\<open>float64\<close> is modelled by the rational
  it denotes. A nested \<^verbatim>\<open>map[string]interface{}\<close> is the list of its entries, read
  with \<open>map_of\<close>.
\<close>

datatype go_value =
    VNil
  | VBool bool
  | VFloat64 rat
  | VInt int
  | VInt64 int
  | VString string
  | VSlice "go_value list"
  | VMap "(string \<times> go_value) list"

text \<open>\<^verbatim>\<open>type ToolArgs map[string]interface{}\<close>\<close>

type_synonym ToolArgs = "string \<rightharpoonup> go_value"

text \<open>
  \<^verbatim>\<open>func (args ToolArgs) GetString(key, defaultValue string) string\<close>:
  the value when it is a non-empty string, the default otherwise.
\<close>

definition GetString :: "ToolArgs \<Rightarrow> string \<Rightarrow> string \<Rightarrow> string" where
  "GetString args key defaultValue =
     (case args key of
        Some (VString v) \<Rightarrow> (if v \<noteq> [] then v else defaultValue)
      | _ \<Rightarrow> defaultValue)"

text \<open>
  Go's conversion \<^verbatim>\<open>int(v)\<close> of a \<^verbatim>\<open>float64\<close> drops the fraction (rounds toward zero);
  \<^verbatim>\<open>int\<close> has 64 bits. For a value whose integer part does not fit, Go leaves the result
  to the implementation; it is the least \<^verbatim>\<open>int\<close>, as on amd64.
\<close>

definition int_of_float64 :: "rat \<Rightarrow> int" where
  "int_of_float64 v =
     (let t = (if v < 0 then - \<lfloor>- v\<rfloor> else \<lfloor>v\<rfloor>)
      in if - 9223372036854775808 \<le> t \<and> t < 9223372036854775808 then t
         else - 9223372036854775808)"

text \<open>\<^verbatim>\<open>func (args ToolArgs) GetInt(key string, defaultValue int) int\<close>\<close>

definition GetInt :: "ToolArgs \<Rightarrow> string \<Rightarrow> int \<Rightarrow> int" where
  "GetInt args key defaultValue =
     (case args key of
        Some (VFloat64 v) \<Rightarrow> int_of_float64 v
      | Some (VInt v) \<Rightarrow> v
      | Some (VInt64 v) \<Rightarrow> v
      | _ \<Rightarrow> defaultValue)"

text \<open>
  \<^verbatim>\<open>func (args ToolArgs) Require(keys ...string) error\<close>: the error for the first key
  that is not in the map, \<open>None\<close> (Go's \<^verbatim>\<open>nil\<close>) when all are there. Errors are
  modelled by their message, the text of \<^verbatim>\<open>err.Error()\<close>.
\<close>

fun Require :: "ToolArgs \<Rightarrow> string list \<Rightarrow> string option" where
  "Require args [] = None"
| "Require args (key # keys) =
     (if args key = None
      then Some (''required parameter '' @ [CHR 0x27] @ key @ [CHR 0x27] @ '' is missing'')
      else Require args keys)"

section \<open>The delegated component and the libraries, at their interface\<close>

text \<open>
  \<^verbatim>\<open>commonpb.Status\<close>, \<^verbatim>\<open>schemapb.FieldSchema\<close>, \<^verbatim>\<open>schemapb.CollectionSchema\<close>,
  \<^verbatim>\<open>milvuspb.CreateCollectionRequest\<close> and \<^verbatim>\<open>milvuspb.CreateIndexRequest\<close>, with the
  fields that \<^verbatim>\<open>createCollection\<close> reads or writes. A \<^verbatim>\<open>commonpb.KeyValuePair\<close> is a
  pair of strings; \<open>DataType\<close> has the two members used here.
\<close>

record Status =
  status_Code :: int
  status_Reason :: string

text \<open>The generated getters accept a \<^verbatim>\<open>nil\<close> receiver and return the zero value.\<close>

definition GetCode :: "Status option \<Rightarrow> int" where
  "GetCode resp = (case resp of None \<Rightarrow> 0 | Some st \<Rightarrow> status_Code st)"

definition GetReason :: "Status option \<Rightarrow> string" where
  "GetReason resp = (case resp of None \<Rightarrow> [] | Some st \<Rightarrow> status_Reason st)"

datatype DataType = DataType_Int64 | DataType_FloatVector

record FieldSchema =
  FieldID :: int
  field_Name :: string
  IsPrimaryKey :: bool
  field_DataType :: DataType
  AutoID :: bool
  TypeParams :: "(string \<times> string) list"

record CollectionSchema =
  collection_Name :: string
  collection_Description :: string
  Fields :: "FieldSchema list"

record CreateCollectionRequest =
  cc_DbName :: string
  cc_CollectionName :: string
  cc_Schema :: "nat list"

record CreateIndexRequest =
  ci_DbName :: string
  ci_CollectionName :: string
  ci_FieldName :: string
  ci_IndexName :: string
  ci_ExtraParams :: "(string \<times> string) list"

text \<open>
  \<^verbatim>\<open>types.ProxyComponent\<close>, the two calls \<^verbatim>\<open>createCollection\<close> makes. Each returns Go's
  pair of a response and an error: \<open>Inl\<close> the error's message, \<open>Inr\<close> the response
  pointer.
\<close>

record ProxyComponent =
  CreateCollection :: "CreateCollectionRequest \<Rightarrow> string + Status option"
  CreateIndex :: "CreateIndexRequest \<Rightarrow> string + Status option"

text \<open>The calls a tool makes to the delegated component, in the order it makes them.\<close>

datatype rpc_call =
    CreateCollectionCall CreateCollectionRequest
  | CreateIndexCall CreateIndexRequest

section \<open>Privilege requirements and the privilege cache\<close>

text \<open>\<^verbatim>\<open>type PrivilegeRequirement struct\<close>\<close>

record PrivilegeRequirement =
  ObjectType :: string
  ObjectPrivilege :: string
  ObjectNameField :: string

text \<open>
  Modelled from the spec: the privilege cache of package \<^verbatim>\<open>proxy\<close>
  (\<^verbatim>\<open>proxy.GetPrivilegeCache\<close>, \<^verbatim>\<open>proxy.SetPrivilegeCache\<close>), whose source is not part of
  this package. The spec describes a cache keyed by (role, resource, privilege); a lookup
  returns (isGranted, isCached, cacheVersion), and the same triple plus a version allows
  writing an entry. A missing entry reads as not granted and not cached; a write is
  applied when it carries the version the cache has.
\<close>

record PrivilegeCache =
  cacheMap :: "(string \<times> string \<times> string) \<rightharpoonup> bool"
  version :: int

definition GetPrivilegeCache ::
  "PrivilegeCache \<Rightarrow> string \<Rightarrow> string \<Rightarrow> string \<Rightarrow> bool \<times> bool \<times> int" where
  "GetPrivilegeCache pc roleName object objectPrivilege =
     (case cacheMap pc (roleName, object, objectPrivilege) of
        None \<Rightarrow> (False, False, version pc)
      | Some isPermit \<Rightarrow> (isPermit, True, version pc))"

definition SetPrivilegeCache ::
  "string \<Rightarrow> string \<Rightarrow> string \<Rightarrow> bool \<Rightarrow> int \<Rightarrow> PrivilegeCache \<Rightarrow> PrivilegeCache" where
  "SetPrivilegeCache roleName object objectPrivilege isPermit ver pc =
     (if ver = version pc
      then pc\<lparr>cacheMap := (cacheMap pc)((roleName, object, objectPrivilege) \<mapsto> isPermit)\<rparr>
      else pc)"

text \<open>
  What this package reads from outside itself, as parameters: the configuration flag
  \<^verbatim>\<open>proxy.Params.CommonCfg.AuthorizationEnabled\<close>, the role lookup \<^verbatim>\<open>proxy.GetRole\<close>
  (an error message or the role names), the constants \<^verbatim>\<open>util.RolePublic\<close> and
  \<^verbatim>\<open>util.DefaultDBName\<close>, \<^verbatim>\<open>funcutil.PolicyForResource\<close>, \<^verbatim>\<open>proto.Marshal\<close> on a
  collection schema (an error message or the bytes), and \<^verbatim>\<open>fmt.Errorf\<close> applied to a
  format alone, whose text depends on the verbs the format contains.
\<close>

record Env =
  AuthorizationEnabled :: bool
  GetRole :: "string \<Rightarrow> string + string list"
  RolePublic :: string
  DefaultDBName :: string
  PolicyForResource :: "string \<Rightarrow> string \<Rightarrow> string \<Rightarrow> string"
  proto_Marshal :: "CollectionSchema \<Rightarrow> string + nat list"
  Errorf :: "string \<Rightarrow> string"

text \<open>
  The inner loop of \<^verbatim>\<open>checkToolPermission\<close> over \<^verbatim>\<open>roleNames\<close>: the result is
  \<^verbatim>\<open>hasPermission\<close> and the cache after the loop. An affirmative cached entry ends the
  loop (\<^verbatim>\<open>break\<close>); a role with no entry gets a negative one.
\<close>

fun scanRoles ::
  "string list \<Rightarrow> string \<Rightarrow> string \<Rightarrow> PrivilegeCache \<Rightarrow> bool \<times> PrivilegeCache" where
  "scanRoles [] objectResource objectPrivilege pc = (False, pc)"
| "scanRoles (roleName # roleNames) objectResource objectPrivilege pc =
     (case GetPrivilegeCache pc roleName objectResource objectPrivilege of
        (isPermit, cached, ver) \<Rightarrow>
          if cached \<and> isPermit then (True, pc)
          else scanRoles roleNames objectResource objectPrivilege
                 (if \<not> cached
                  then SetPrivilegeCache roleName objectResource objectPrivilege False ver pc
                  else pc))"

text \<open>The object name and the resource that the loop body computes for one requirement.\<close>

definition objectNameOf :: "string \<Rightarrow> ToolArgs \<Rightarrow> PrivilegeRequirement \<Rightarrow> string" where
  "objectNameOf dbName args privilege =
     (let objectName = GetString args (ObjectNameField privilege) ''*''
      in if ObjectType privilege = ''Database'' \<and> objectName = ''*'' then dbName
         else objectName)"

definition objectResourceOf ::
  "Env \<Rightarrow> string \<Rightarrow> ToolArgs \<Rightarrow> PrivilegeRequirement \<Rightarrow> string" where
  "objectResourceOf env dbName args privilege =
     PolicyForResource env dbName (ObjectType privilege) (objectNameOf dbName args privilege)"

text \<open>
  \<^verbatim>\<open>fmt.Errorf("permission denied: %s privilege required on %s:%s", ...)\<close>
\<close>

definition deniedMessage :: "string \<Rightarrow> string \<Rightarrow> string \<Rightarrow> string" where
  "deniedMessage objectPrivilege objectType objectName =
     ''permission denied: '' @ objectPrivilege @ '' privilege required on ''
       @ objectType @ '':'' @ objectName"

text \<open>
  The outer loop over \<^verbatim>\<open>tool.RequiredPrivileges\<close>: the first requirement that no role
  satisfies returns its error; \<open>None\<close> is \<^verbatim>\<open>nil\<close>.
\<close>

fun checkPrivileges ::
  "Env \<Rightarrow> string list \<Rightarrow> string \<Rightarrow> ToolArgs \<Rightarrow> PrivilegeRequirement list
     \<Rightarrow> PrivilegeCache \<Rightarrow> string option \<times> PrivilegeCache" where
  "checkPrivileges env roleNames dbName args [] pc = (None, pc)"
| "checkPrivileges env roleNames dbName args (privilege # privileges) pc =
     (case scanRoles roleNames (objectResourceOf env dbName args privilege)
             (ObjectPrivilege privilege) pc of
        (hasPermission, pc') \<Rightarrow>
          if \<not> hasPermission
          then (Some (deniedMessage (ObjectPrivilege privilege) (ObjectType privilege)
                        (objectNameOf dbName args privilege)), pc')
          else checkPrivileges env roleNames dbName args privileges pc')"

section \<open>Protocol types (types.go)\<close>

text \<open>\<^verbatim>\<open>type McpRequest struct\<close>. A request without \<^verbatim>\<open>id\<close> has \<open>ID = VNil\<close>; a
  request without \<^verbatim>\<open>params\<close> has the empty map (reading a nil Go map finds no key).\<close>

record McpRequest =
  Jsonrpc :: string
  ID :: go_value
  Method :: string
  Params :: "string \<rightharpoonup> go_value"

text \<open>\<^verbatim>\<open>type McpError struct\<close>\<close>

record McpError =
  Code :: int
  Message :: string
  Data :: go_value

definition ErrorCodeParseError :: int where "ErrorCodeParseError = - 32700"
definition ErrorCodeMethodNotFound :: int where "ErrorCodeMethodNotFound = - 32601"
definition ErrorCodeInvalidParams :: int where "ErrorCodeInvalidParams = - 32602"

definition McpProtocolVersion :: string where "McpProtocolVersion = ''2025-06-18''"
definition MCPHeaderProtocolVersion :: string where
  "MCPHeaderProtocolVersion = ''MCP-Protocol-Version''"
definition ParamProtocolVersion :: string where "ParamProtocolVersion = ''protocolVersion''"

text \<open>The capability structs; a pointer field is an \<open>option\<close>.\<close>

record ToolsCapability =
  tools_ListChanged :: bool

record ResourcesCapability =
  resources_Subscribe :: bool
  resources_ListChanged :: bool

record PromptsCapability =
  prompts_ListChanged :: bool

record ExperimentalCapability =
  StructuredOutput :: bool

record McpCapabilities =
  Tools :: "ToolsCapability option"
  Resources :: "ResourcesCapability option"
  Prompts :: "PromptsCapability option"
  Logging :: "unit option"
  Experimental :: "ExperimentalCapability option"

record McpServerInfo =
  info_Name :: string
  info_Version :: string
  info_Title :: string

record McpInitializeResult =
  ProtocolVersion :: string
  Capabilities :: McpCapabilities
  ServerInfo :: McpServerInfo

text \<open>
  \<^verbatim>\<open>type SchemaParam struct\<close>, in the order of its fields: Type, Description, Default,
  Enum, Minimum, Maximum, MinLength, MaxLength, Pattern, Format, Items.
\<close>

datatype SchemaParam =
  SchemaParam (sp_Type: string) (sp_Description: string) (sp_Default: go_value)
    (sp_Enum: "go_value list") (sp_Minimum: "rat option") (sp_Maximum: "rat option")
    (sp_MinLength: "int option") (sp_MaxLength: "int option") (sp_Pattern: string)
    (sp_Format: string) (sp_Items: "SchemaParam option")

text \<open>\<^verbatim>\<open>type ToolSchema struct\<close>; \<open>Properties\<close> is the list of the map's entries.\<close>

record ToolSchema =
  schema_Type :: string
  Properties :: "(string \<times> SchemaParam) list"
  Required :: "string list"

text \<open>\<^verbatim>\<open>type McpToolDescription struct\<close>\<close>

record McpToolDescription =
  desc_Name :: string
  desc_Title :: string
  desc_Description :: string
  desc_InputSchema :: "ToolSchema option"
  desc_OutputSchema :: "ToolSchema option"

record McpToolsListResult =
  list_Tools :: "McpToolDescription list"
  NextCursor :: string

text \<open>\<^verbatim>\<open>type McpContent struct\<close>\<close>

record McpContent =
  content_Type :: string
  Text :: string

text \<open>\<^verbatim>\<open>type McpToolResult struct\<close>; a \<^verbatim>\<open>nil\<close> structured content is \<open>VNil\<close>.\<close>

record McpToolResult =
  mcp_Content :: "McpContent list"
  mcp_IsError :: bool
  mcp_StructuredContent :: go_value

text \<open>\<^verbatim>\<open>type ToolResult struct\<close>\<close>

record ToolResult =
  Content :: "McpContent list"
  IsError :: bool
  StructuredContent :: go_value

definition NewToolResult :: "string \<Rightarrow> ToolResult" where
  "NewToolResult text =
     \<lparr>Content = [\<lparr>content_Type = ''text'', Text = text\<rparr>], IsError = False,
      StructuredContent = VNil\<rparr>"

definition NewToolResultWithData :: "string \<Rightarrow> go_value \<Rightarrow> ToolResult" where
  "NewToolResultWithData text data =
     \<lparr>Content = [\<lparr>content_Type = ''text'', Text = text\<rparr>], IsError = False,
      StructuredContent = data\<rparr>"

text \<open>
  The \<^verbatim>\<open>Result interface{}\<close> of a response holds one of the handlers' result values.
\<close>

datatype mcp_result =
    InitializeResult McpInitializeResult
  | ToolsListResult McpToolsListResult
  | ToolCallResult McpToolResult
  | MapResult "(string \<times> go_value) list"

text \<open>\<^verbatim>\<open>type McpResponse struct\<close>; \<open>None\<close> is a \<^verbatim>\<open>nil\<close> result or error.\<close>

record McpResponse =
  resp_Jsonrpc :: string
  resp_ID :: go_value
  Result :: "mcp_result option"
  Error :: "McpError option"

text \<open>
  \<^verbatim>\<open>type ExecuteFunc func(ctx context.Context, args ToolArgs) (*ToolResult, error)\<close>:
  the error's message or the result. Every callback of this package returns one of the
  two; a callback returning neither is not modelled.
\<close>

type_synonym ExecuteFunc = "ToolArgs \<Rightarrow> string + ToolResult"

text \<open>\<^verbatim>\<open>type Tool struct\<close>\<close>

record Tool =
  Name :: string
  Title :: string
  Description :: string
  Execute :: ExecuteFunc
  InputSchema :: "ToolSchema option"
  OutputSchema :: "ToolSchema option"
  RequiredPrivileges :: "PrivilegeRequirement list"

text \<open>\<^verbatim>\<open>func NewToolSchema\<close>, \<^verbatim>\<open>AddParameter\<close>, \<^verbatim>\<open>AddRequired\<close>\<close>

definition NewToolSchema :: ToolSchema where
  "NewToolSchema = \<lparr>schema_Type = ''object'', Properties = [], Required = []\<rparr>"

definition AddParameter :: "string \<Rightarrow> SchemaParam \<Rightarrow> ToolSchema \<Rightarrow> ToolSchema" where
  "AddParameter name param s = s\<lparr>Properties := AList.update name param (Properties s)\<rparr>"

definition AddRequired :: "string list \<Rightarrow> ToolSchema \<Rightarrow> ToolSchema" where
  "AddRequired params s = s\<lparr>Required := Required s @ params\<rparr>"

section \<open>Constants and messages (constants.go, descriptions.go)\<close>

definition ParamDatabaseKey :: string where "ParamDatabaseKey = ''database''"
definition ParamCollectionNameKey :: string where "ParamCollectionNameKey = ''collection_name''"
definition ParamDimensionKey :: string where "ParamDimensionKey = ''dimension''"
definition ParamMetricTypeKey :: string where "ParamMetricTypeKey = ''metric_type''"

definition FieldPrimaryIDName :: string where "FieldPrimaryIDName = ''id''"
definition FieldVectorName :: string where "FieldVectorName = ''vector''"
definition TypeParamDimKey :: string where "TypeParamDimKey = ''dim''"
definition DefaultCollectionDescription :: string where
  "DefaultCollectionDescription = ''Created by MCP''"

definition DefaultIndexName :: string where "DefaultIndexName = ''vector_index''"
definition DefaultIndexType :: string where "DefaultIndexType = ''IVF_FLAT''"
definition DefaultMetricType :: string where "DefaultMetricType = ''L2''"
definition IndexParamIndexTypeKey :: string where "IndexParamIndexTypeKey = ''index_type''"
definition IndexParamMetricTypeKey :: string where "IndexParamMetricTypeKey = ''metric_type''"
definition IndexParamParamsKey :: string where "IndexParamParamsKey = ''params''"

definition ObjectTypeDatabase :: string where "ObjectTypeDatabase = ''Database''"
definition ObjectTypeCollection :: string where "ObjectTypeCollection = ''Collection''"
definition PrivShowCollections :: string where "PrivShowCollections = ''ShowCollections''"
definition PrivCreateCollection :: string where "PrivCreateCollection = ''CreateCollection''"
definition PrivDescribeCollection :: string where
  "PrivDescribeCollection = ''DescribeCollection''"
definition PrivDropCollection :: string where "PrivDropCollection = ''DropCollection''"
definition PrivInsert :: string where "PrivInsert = ''Insert''"
definition PrivSearch :: string where "PrivSearch = ''Search''"
definition PrivQuery :: string where "PrivQuery = ''Query''"
definition PrivDelete :: string where "PrivDelete = ''Delete''"
definition PrivCreateIndex :: string where "PrivCreateIndex = ''CreateIndex''"
definition PrivDescribeIndex :: string where "PrivDescribeIndex = ''DescribeIndex''"

definition ToolCollectionListName :: string where
  "ToolCollectionListName = ''collection.list''"
definition ToolCollectionListTitle :: string where
  "ToolCollectionListTitle = ''List Collections''"
definition ToolCollectionListDescription :: string where
  "ToolCollectionListDescription = ''List all collections in a database''"
definition ToolCollectionCreateName :: string where
  "ToolCollectionCreateName = ''collection.create''"
definition ToolCollectionCreateTitle :: string where
  "ToolCollectionCreateTitle = ''Create Collection''"
definition ToolCollectionCreateDescription :: string where
  "ToolCollectionCreateDescription =
     ''Create a new vector collection with simplified parameters''"
definition ToolCollectionDescribeName :: string where
  "ToolCollectionDescribeName = ''collection.describe''"
definition ToolCollectionDescribeTitle :: string where
  "ToolCollectionDescribeTitle = ''Describe Collection''"
definition ToolCollectionDescribeDescription :: string where
  "ToolCollectionDescribeDescription = ''Get detailed information about a collection''"
definition ToolCollectionDropName :: string where
  "ToolCollectionDropName = ''collection.drop''"
definition ToolCollectionDropTitle :: string where
  "ToolCollectionDropTitle = ''Drop Collection''"
definition ToolCollectionDropDescription :: string where
  "ToolCollectionDropDescription = ''Delete a collection and all its data''"
definition ToolDataInsertName :: string where "ToolDataInsertName = ''data.insert''"
definition ToolDataInsertTitle :: string where "ToolDataInsertTitle = ''Insert Data''"
definition ToolDataInsertDescription :: string where
  "ToolDataInsertDescription = ''Insert vectors and associated data into a collection''"
definition ToolDataSearchName :: string where "ToolDataSearchName = ''data.search''"
definition ToolDataSearchTitle :: string where "ToolDataSearchTitle = ''Vector Search''"
definition ToolDataSearchDescription :: string where
  "ToolDataSearchDescription = ''Search for similar vectors in a collection''"
definition ToolDataQueryName :: string where "ToolDataQueryName = ''data.query''"
definition ToolDataQueryTitle :: string where "ToolDataQueryTitle = ''Query Data''"
definition ToolDataQueryDescription :: string where
  "ToolDataQueryDescription = ''Query data using scalar filters''"
definition ToolDataDeleteName :: string where "ToolDataDeleteName = ''data.delete''"
definition ToolDataDeleteTitle :: string where "ToolDataDeleteTitle = ''Delete Data''"
definition ToolDataDeleteDescription :: string where
  "ToolDataDeleteDescription = ''Delete entities from a collection by primary key''"
definition ToolIndexCreateName :: string where "ToolIndexCreateName = ''index.create''"
definition ToolIndexCreateTitle :: string where "ToolIndexCreateTitle = ''Create Index''"
definition ToolIndexCreateDescription :: string where
  "ToolIndexCreateDescription = ''Create an index on a vector field''"
definition ToolIndexDescribeName :: string where "ToolIndexDescribeName = ''index.describe''"
definition ToolIndexDescribeTitle :: string where "ToolIndexDescribeTitle = ''Describe Index''"
definition ToolIndexDescribeDescription :: string where
  "ToolIndexDescribeDescription = ''Get information about indexes on a collection''"

definition ParamDatabaseDescription :: string where
  "ParamDatabaseDescription = ''Database name''"
definition ParamDatabaseDefaultDesc :: string where
  "ParamDatabaseDefaultDesc = ''Database name (default: '' @ [CHR 0x27] @ ''default''
     @ [CHR 0x27] @ '')''"
definition ParamCollectionNameDescription :: string where
  "ParamCollectionNameDescription = ''Name of the collection''"
definition ParamCollectionNameCreateDescription :: string where
  "ParamCollectionNameCreateDescription = ''Name of the collection to create''"
definition ParamDimensionDescription :: string where
  "ParamDimensionDescription = ''Dimension of vectors''"
definition ParamMetricTypeDescription :: string where
  "ParamMetricTypeDescription = ''Distance metric type''"
definition OutputCollectionsDescription :: string where
  "OutputCollectionsDescription = ''List of collection names''"
definition OutputDatabaseDescription :: string where
  "OutputDatabaseDescription = ''Database name''"
definition OutputCollectionNameDescription :: string where
  "OutputCollectionNameDescription = ''Name of the created collection''"
definition OutputDimensionDescription :: string where
  "OutputDimensionDescription = ''Vector dimension''"
definition OutputMetricTypeDescription :: string where
  "OutputMetricTypeDescription = ''Distance metric type''"
definition OutputStatusDescription :: string where
  "OutputStatusDescription = ''Operation status''"

definition MsgInsertPlaceholder :: string where
  "MsgInsertPlaceholder = ''Insert operation would be implemented here''"
definition MsgQueryPlaceholder :: string where
  "MsgQueryPlaceholder = ''Query operation would be implemented here''"
definition MsgDeletePlaceholder :: string where
  "MsgDeletePlaceholder = ''Delete operation would be implemented here''"
definition MsgCreateIndexPlaceholder :: string where
  "MsgCreateIndexPlaceholder = ''Create index operation would be implemented here''"
definition MsgDescribeIndexPlaceholder :: string where
  "MsgDescribeIndexPlaceholder = ''Describe index operation would be implemented here''"

text \<open>The verb \<^verbatim>\<open>%d\<close> of package \<^verbatim>\<open>fmt\<close>: an integer in decimal.\<close>

fun format_nat :: "nat \<Rightarrow> string" where
  "format_nat n =
     (if n < 10 then [''0123456789'' ! n]
      else format_nat (n div 10) @ [''0123456789'' ! (n mod 10)])"

declare format_nat.simps [simp del]

definition format_d :: "int \<Rightarrow> string" where
  "format_d i = (if i < 0 then ''-'' @ format_nat (nat (- i)) else format_nat (nat i))"

text \<open>
  The format strings \<^verbatim>\<open>ErrDimensionPositive = "dimension must be positive, got %d"\<close> and
  \<^verbatim>\<open>MsgCollectionCreateSuccess = "Collection '%s' created successfully with dimension %d"\<close>,
  applied to their operands.
\<close>

definition ErrDimensionPositive :: "int \<Rightarrow> string" where
  "ErrDimensionPositive dimension = ''dimension must be positive, got '' @ format_d dimension"

definition MsgCollectionCreateSuccess :: "string \<Rightarrow> int \<Rightarrow> string" where
  "MsgCollectionCreateSuccess collectionName dimension =
     ''Collection '' @ [CHR 0x27] @ collectionName @ [CHR 0x27]
       @ '' created successfully with dimension '' @ format_d dimension"

section \<open>Tool implementations (tools_catalog.go)\<close>

text \<open>
  \<^verbatim>\<open>func (tc *ToolsCatalog) createCollection\<close>. The result is Go's pair of a result and
  an error (\<open>Inl\<close> the error's message), together with the calls made to the delegated
  component. The response and the error of \<^verbatim>\<open>tc.proxy.CreateIndex\<close> are dropped, as the
  statement \<^verbatim>\<open>tc.proxy.CreateIndex(ctx, indexReq)\<close> drops them.
\<close>

definition createCollection ::
  "Env \<Rightarrow> ProxyComponent \<Rightarrow> ToolArgs \<Rightarrow> (string + ToolResult) \<times> rpc_call list" where
  "createCollection env px args =
     (case Require args [ParamCollectionNameKey, ParamDimensionKey] of
        Some err \<Rightarrow> (Inl err, [])
      | None \<Rightarrow>
         (let dbName = GetString args ParamDatabaseKey (DefaultDBName env);
              collectionName = GetString args ParamCollectionNameKey [];
              dimension = GetInt args ParamDimensionKey 0;
              metricType = GetString args ParamMetricTypeKey DefaultMetricType
          in
          if dimension \<le> 0 then (Inl (ErrDimensionPositive dimension), [])
          else
           (let schema =
                  \<lparr>collection_Name = collectionName,
                   collection_Description = DefaultCollectionDescription,
                   Fields =
                     [\<lparr>FieldID = 100, field_Name = FieldPrimaryIDName, IsPrimaryKey = True,
                       field_DataType = DataType_Int64, AutoID = True, TypeParams = []\<rparr>,
                      \<lparr>FieldID = 101, field_Name = FieldVectorName, IsPrimaryKey = False,
                       field_DataType = DataType_FloatVector, AutoID = False,
                       TypeParams = [(TypeParamDimKey, format_d dimension)]\<rparr>]\<rparr>
            in
            (case proto_Marshal env schema of
               Inl err \<Rightarrow> (Inl err, [])
             | Inr schemaBytes \<Rightarrow>
                (let req = \<lparr>cc_DbName = dbName, cc_CollectionName = collectionName,
                            cc_Schema = schemaBytes\<rparr>
                 in
                 (case CreateCollection px req of
                    Inl err \<Rightarrow> (Inl err, [CreateCollectionCall req])
                  | Inr resp \<Rightarrow>
                     (if GetCode resp \<noteq> 0
                      then (Inl (Errorf env (GetReason resp)), [CreateCollectionCall req])
                      else
                       (let indexReq =
                              \<lparr>ci_DbName = dbName, ci_CollectionName = collectionName,
                               ci_FieldName = FieldVectorName, ci_IndexName = DefaultIndexName,
                               ci_ExtraParams =
                                 [(IndexParamIndexTypeKey, DefaultIndexType),
                                  (IndexParamMetricTypeKey, metricType),
                                  (IndexParamParamsKey, ''{\"nlist\": 128}'')]\<rparr>;
                            _ = CreateIndex px indexReq;
                            data = VMap
                              [(''collection_name'', VString collectionName),
                               (''database'', VString dbName),
                               (''dimension'', VInt dimension),
                               (''metric_type'', VString metricType),
                               (''status'', VString ''created'')];
                            message = MsgCollectionCreateSuccess collectionName dimension
                        in (Inr (NewToolResultWithData message data),
                            [CreateCollectionCall req, CreateIndexCall indexReq])))))))))"

text \<open>The five tools whose implementation is a fixed text.\<close>

definition insertData :: ExecuteFunc where
  "insertData args = Inr (NewToolResult MsgInsertPlaceholder)"

definition queryData :: ExecuteFunc where
  "queryData args = Inr (NewToolResult MsgQueryPlaceholder)"

definition deleteData :: ExecuteFunc where
  "deleteData args = Inr (NewToolResult MsgDeletePlaceholder)"

definition createIndex :: ExecuteFunc where
  "createIndex args = Inr (NewToolResult MsgCreateIndexPlaceholder)"

definition describeIndex :: ExecuteFunc where
  "describeIndex args = Inr (NewToolResult MsgDescribeIndexPlaceholder)"

text \<open>
  The callbacks \<^verbatim>\<open>listCollections\<close>, \<^verbatim>\<open>describeCollection\<close>, \<^verbatim>\<open>dropCollection\<close> and
  \<^verbatim>\<open>searchVectors\<close> read protobuf responses of the delegated component; they are taken
  as given functions of the arguments. Nothing below depends on what they return.
\<close>

record DelegatedTools =
  listCollections :: ExecuteFunc
  describeCollection :: ExecuteFunc
  dropCollection :: ExecuteFunc
  searchVectors :: ExecuteFunc

section \<open>Schema definitions (tools_catalog.go)\<close>

definition simpleCollectionSchema :: ToolSchema where
  "simpleCollectionSchema =
     \<lparr>schema_Type = ''object'',
      Properties =
        [(''database'',
            SchemaParam ''string'' ParamDatabaseDescription (VString ''default'') []
              None None None None [] [] None),
         (''collection_name'',
            SchemaParam ''string'' ParamCollectionNameDescription VNil []
              None None None None [] [] None)],
      Required = [''collection_name'']\<rparr>"

definition schemaForListCollections :: ToolSchema where
  "schemaForListCollections =
     \<lparr>schema_Type = ''object'',
      Properties =
        [(''database'',
            SchemaParam ''string'' ParamDatabaseDefaultDesc (VString ''default'') []
              None None None None [] [] None)],
      Required = []\<rparr>"

text \<open>The builder calls are applied innermost first, in the order the source chains them.\<close>

definition schemaForCreateCollection :: ToolSchema where
  "schemaForCreateCollection =
     (let min1 = 1; max255 = 255; minDim = 1; maxDim = 32768 in
      AddRequired [''collection_name'', ''dimension'']
       (AddParameter ''metric_type''
          (SchemaParam ''string'' ParamMetricTypeDescription (VString ''L2'')
             [VString ''L2'', VString ''IP'', VString ''COSINE'']
             None None None None [] [] None)
       (AddParameter ''dimension''
          (SchemaParam ''integer'' ParamDimensionDescription VNil []
             (Some minDim) (Some maxDim) None None [] [] None)
       (AddParameter ''collection_name''
          (SchemaParam ''string'' ParamCollectionNameCreateDescription VNil []
             None None (Some min1) (Some max255) [] [] None)
       (AddParameter ''database''
          (SchemaParam ''string'' ParamDatabaseDescription (VString ''default'') []
             None None None None [] [] None)
        NewToolSchema)))))"

definition schemaForDescribeCollection :: ToolSchema where
  "schemaForDescribeCollection =
     \<lparr>schema_Type = ''object'',
      Properties =
        [(''database'',
            SchemaParam ''string'' ''Database name'' (VString ''default'') []
              None None None None [] [] None),
         (''collection_name'',
            SchemaParam ''string'' ''Name of the collection'' VNil []
              None None None None [] [] None)],
      Required = [''collection_name'']\<rparr>"

definition outputSchemaForListCollections :: ToolSchema where
  "outputSchemaForListCollections =
     AddRequired [''collections'', ''database'']
      (AddParameter ''database''
         (SchemaParam ''string'' OutputDatabaseDescription VNil []
            None None None None [] [] None)
      (AddParameter ''collections''
         (SchemaParam ''array'' OutputCollectionsDescription VNil []
            None None None None [] []
            (Some (SchemaParam ''string'' [] VNil [] None None None None [] [] None)))
       NewToolSchema))"

definition outputSchemaForCreateCollection :: ToolSchema where
  "outputSchemaForCreateCollection =
     AddRequired [''collection_name'', ''database'', ''dimension'', ''metric_type'', ''status'']
      (AddParameter ''status''
         (SchemaParam ''string'' OutputStatusDescription VNil []
            None None None None [] [] None)
      (AddParameter ''metric_type''
         (SchemaParam ''string'' OutputMetricTypeDescription VNil []
            None None None None [] [] None)
      (AddParameter ''dimension''
         (SchemaParam ''integer'' OutputDimensionDescription VNil []
            None None None None [] [] None)
      (AddParameter ''database''
         (SchemaParam ''string'' ''Database name'' VNil []
            None None None None [] [] None)
      (AddParameter ''collection_name''
         (SchemaParam ''string'' OutputCollectionNameDescription VNil []
            None None None None [] [] None)
       NewToolSchema)))))"

section \<open>The tool registry (tools_catalog.go)\<close>

text \<open>
  \<^verbatim>\<open>type ToolsCatalog struct\<close>. The map \<^verbatim>\<open>tools\<close> is the list of its entries: \<open>Get\<close>
  reads it with \<open>map_of\<close>, \<open>register\<close> stores with \<open>AList.update\<close>, which replaces the
  entry of a name that is already there, and \<^verbatim>\<open>len(tc.tools)\<close> is the length of the
  list. Go visits a map in an order of its own choosing; \<open>List\<close> visits the entries in
  the order of the list, which stands for that choice.
\<close>

record ToolsCatalog =
  proxy :: ProxyComponent
  tools :: "(string \<times> Tool) list"

definition Get :: "ToolsCatalog \<Rightarrow> string \<Rightarrow> Tool option" where
  "Get tc name = map_of (tools tc) name"

definition describe :: "Tool \<Rightarrow> McpToolDescription" where
  "describe tool =
     \<lparr>desc_Name = Name tool, desc_Title = Title tool, desc_Description = Description tool,
      desc_InputSchema = InputSchema tool, desc_OutputSchema = OutputSchema tool\<rparr>"

definition List :: "ToolsCatalog \<Rightarrow> McpToolDescription list" where
  "List tc = map (\<lambda>(name, tool). describe tool) (tools tc)"

definition register :: "Tool \<Rightarrow> ToolsCatalog \<Rightarrow> ToolsCatalog" where
  "register tool tc = tc\<lparr>tools := AList.update (Name tool) tool (tools tc)\<rparr>"

text \<open>\<^verbatim>\<open>func (tc *ToolsCatalog) registerAll()\<close>: ten calls of \<^verbatim>\<open>register\<close>, in this order.\<close>

definition registerAll :: "Env \<Rightarrow> DelegatedTools \<Rightarrow> ToolsCatalog \<Rightarrow> ToolsCatalog" where
  "registerAll env dt tc =
     fold register
       [\<lparr>Name = ToolCollectionListName, Title = ToolCollectionListTitle,
         Description = ToolCollectionListDescription,
         Execute = listCollections dt,
         InputSchema = Some schemaForListCollections,
         OutputSchema = Some outputSchemaForListCollections,
         RequiredPrivileges =
           [\<lparr>ObjectType = ObjectTypeDatabase, ObjectPrivilege = PrivShowCollections,
             ObjectNameField = ParamDatabaseKey\<rparr>]\<rparr>,
        \<lparr>Name = ToolCollectionCreateName, Title = ToolCollectionCreateTitle,
         Description = ToolCollectionCreateDescription,
         Execute = (\<lambda>args. fst (createCollection env (proxy tc) args)),
         InputSchema = Some schemaForCreateCollection,
         OutputSchema = Some outputSchemaForCreateCollection,
         RequiredPrivileges =
           [\<lparr>ObjectType = ObjectTypeDatabase, ObjectPrivilege = PrivCreateCollection,
             ObjectNameField = ParamDatabaseKey\<rparr>]\<rparr>,
        \<lparr>Name = ToolCollectionDescribeName, Title = ToolCollectionDescribeTitle,
         Description = ToolCollectionDescribeDescription,
         Execute = describeCollection dt,
         InputSchema = Some schemaForDescribeCollection,
         OutputSchema = None,
         RequiredPrivileges =
           [\<lparr>ObjectType = ObjectTypeCollection, ObjectPrivilege = PrivDescribeCollection,
             ObjectNameField = ParamCollectionNameKey\<rparr>]\<rparr>,
        \<lparr>Name = ToolCollectionDropName, Title = ToolCollectionDropTitle,
         Description = ToolCollectionDropDescription,
         Execute = dropCollection dt,
         InputSchema = Some simpleCollectionSchema,
         OutputSchema = None,
         RequiredPrivileges =
           [\<lparr>ObjectType = ObjectTypeCollection, ObjectPrivilege = PrivDropCollection,
             ObjectNameField = ParamCollectionNameKey\<rparr>]\<rparr>,
        \<lparr>Name = ToolDataInsertName, Title = ToolDataInsertTitle,
         Description = ToolDataInsertDescription,
         Execute = insertData,
         InputSchema = Some simpleCollectionSchema,
         OutputSchema = None,
         RequiredPrivileges =
           [\<lparr>ObjectType = ObjectTypeCollection, ObjectPrivilege = PrivInsert,
             ObjectNameField = ParamCollectionNameKey\<rparr>]\<rparr>,
        \<lparr>Name = ToolDataSearchName, Title = ToolDataSearchTitle,
         Description = ToolDataSearchDescription,
         Execute = searchVectors dt,
         InputSchema = Some simpleCollectionSchema,
         OutputSchema = None,
         RequiredPrivileges =
           [\<lparr>ObjectType = ObjectTypeCollection, ObjectPrivilege = PrivSearch,
             ObjectNameField = ParamCollectionNameKey\<rparr>]\<rparr>,
        \<lparr>Name = ToolDataQueryName, Title = ToolDataQueryTitle,
         Description = ToolDataQueryDescription,
         Execute = queryData,
         InputSchema = Some simpleCollectionSchema,
         OutputSchema = None,
         RequiredPrivileges =
           [\<lparr>ObjectType = ObjectTypeCollection, ObjectPrivilege = PrivQuery,
             ObjectNameField = ParamCollectionNameKey\<rparr>]\<rparr>,
        \<lparr>Name = ToolDataDeleteName, Title = ToolDataDeleteTitle,
         Description = ToolDataDeleteDescription,
         Execute = deleteData,
         InputSchema = Some simpleCollectionSchema,
         OutputSchema = None,
         RequiredPrivileges =
           [\<lparr>ObjectType = ObjectTypeCollection, ObjectPrivilege = PrivDelete,
             ObjectNameField = ParamCollectionNameKey\<rparr>]\<rparr>,
        \<lparr>Name = ToolIndexCreateName, Title = ToolIndexCreateTitle,
         Description = ToolIndexCreateDescription,
         Execute = createIndex,
         InputSchema = Some simpleCollectionSchema,
         OutputSchema = None,
         RequiredPrivileges =
           [\<lparr>ObjectType = ObjectTypeCollection, ObjectPrivilege = PrivCreateIndex,
             ObjectNameField = ParamCollectionNameKey\<rparr>]\<rparr>,
        \<lparr>Name = ToolIndexDescribeName, Title = ToolIndexDescribeTitle,
         Description = ToolIndexDescribeDescription,
         Execute = describeIndex,
         InputSchema = Some simpleCollectionSchema,
         OutputSchema = None,
         RequiredPrivileges =
           [\<lparr>ObjectType = ObjectTypeCollection, ObjectPrivilege = PrivDescribeIndex,
             ObjectNameField = ParamCollectionNameKey\<rparr>]\<rparr>]
       tc"

definition NewToolsCatalog :: "Env \<Rightarrow> DelegatedTools \<Rightarrow> ProxyComponent \<Rightarrow> ToolsCatalog" where
  "NewToolsCatalog env dt px = registerAll env dt \<lparr>proxy = px, tools = []\<rparr>"

section \<open>The server and its handlers (server.go)\<close>

text \<open>\<^verbatim>\<open>type McpServer struct\<close>\<close>

record McpServer =
  catalog :: ToolsCatalog
  enabled :: bool

definition NewMcpServer :: "Env \<Rightarrow> DelegatedTools \<Rightarrow> ProxyComponent \<Rightarrow> McpServer" where
  "NewMcpServer env dt px = \<lparr>catalog = NewToolsCatalog env dt px, enabled = True\<rparr>"

text \<open>
  The part of \<^verbatim>\<open>*gin.Context\<close> the handlers use. They read the request's
  \<^verbatim>\<open>MCP-Protocol-Version\<close> header (\<^verbatim>\<open>c.GetHeader\<close>, the empty string when there is
  none) and the key \<^verbatim>\<open>"username"\<close> (\<^verbatim>\<open>c.GetString\<close>, the empty string when it is not
  set). They write a JSON body with \<^verbatim>\<open>c.JSON\<close>, always with status 200, and set the
  response's \<^verbatim>\<open>MCP-Protocol-Version\<close> header with \<^verbatim>\<open>c.Header\<close>; \<open>None\<close> is a body or a
  header that no call has written. The header field is the entry of the response writer's
  header map when the handler returns; every handler sets it after the body, and what the
  HTTP library then sends is not part of this model. Log calls have no part in the result
  and are left out.
\<close>

record GinContext =
  requestProtocolHeader :: string
  username :: string
  responseBody :: "McpResponse option"
  responseProtocolHeader :: "string option"

definition c_JSON :: "McpResponse \<Rightarrow> GinContext \<Rightarrow> GinContext" where
  "c_JSON response c = c\<lparr>responseBody := Some response\<rparr>"

definition c_Header :: "string \<Rightarrow> GinContext \<Rightarrow> GinContext" where
  "c_Header v c = c\<lparr>responseProtocolHeader := Some v\<rparr>"

definition returnSuccess :: "McpRequest \<Rightarrow> mcp_result \<Rightarrow> GinContext \<Rightarrow> GinContext" where
  "returnSuccess req result c =
     c_JSON \<lparr>resp_Jsonrpc = ''2.0'', resp_ID = ID req, Result = Some result, Error = None\<rparr> c"

definition returnError ::
  "McpRequest \<Rightarrow> int \<Rightarrow> string \<Rightarrow> go_value \<Rightarrow> GinContext \<Rightarrow> GinContext" where
  "returnError req code message data c =
     c_JSON \<lparr>resp_Jsonrpc = ''2.0'', resp_ID = ID req, Result = None,
             Error = Some \<lparr>Code = code, Message = message, Data = data\<rparr>\<rparr> c"

definition returnToolResult :: "McpRequest \<Rightarrow> McpToolResult \<Rightarrow> GinContext \<Rightarrow> GinContext" where
  "returnToolResult req result c = returnSuccess req (ToolCallResult result) c"

text \<open>\<^verbatim>\<open>func (s *McpServer) getProtocolVersion(c *gin.Context, req *McpRequest) string\<close>\<close>

definition getProtocolVersion :: "GinContext \<Rightarrow> McpRequest \<Rightarrow> string" where
  "getProtocolVersion c req =
     (if (case Params req ParamProtocolVersion of
            Some (VString protocolVersion) \<Rightarrow> protocolVersion = ''2025-03-26''
          | _ \<Rightarrow> False)
      then ''2025-03-26''
      else if requestProtocolHeader c = ''2025-03-26'' then ''2025-03-26''
      else McpProtocolVersion)"

text \<open>\<^verbatim>\<open>func (s *McpServer) isProtocolVersionSupported(version string) bool\<close>\<close>

definition isProtocolVersionSupported :: "string \<Rightarrow> bool" where
  "isProtocolVersionSupported v =
     (v \<in> set [''2025-06-18'', ''2025-03-26'', ''2024-11-05''])"

text \<open>
  \<^verbatim>\<open>func (s *McpServer) checkToolPermission(username string, tool *Tool, args ToolArgs) error\<close>:
  the error (\<open>None\<close> is \<^verbatim>\<open>nil\<close>) and the privilege cache after the call.
\<close>

definition checkToolPermission ::
  "Env \<Rightarrow> string \<Rightarrow> Tool \<Rightarrow> ToolArgs \<Rightarrow> PrivilegeCache \<Rightarrow> string option \<times> PrivilegeCache" where
  "checkToolPermission env user tool args pc =
     (if \<not> AuthorizationEnabled env then (None, pc)
      else if length (RequiredPrivileges tool) = 0 then (None, pc)
      else
        (case GetRole env user of
           Inl err \<Rightarrow> (Some err, pc)
         | Inr roleNames \<Rightarrow>
            (let roleNames = roleNames @ [RolePublic env];
                 dbName = GetString args ''database'' (DefaultDBName env)
             in checkPrivileges env roleNames dbName args (RequiredPrivileges tool) pc)))"

text \<open>
  The loop of \<^verbatim>\<open>filterToolsByPermission\<close>: the descriptions kept, in their order, and
  the privilege cache after the loop.
\<close>

fun filterTools ::
  "McpServer \<Rightarrow> Env \<Rightarrow> string \<Rightarrow> McpToolDescription list \<Rightarrow> PrivilegeCache
     \<Rightarrow> McpToolDescription list \<times> PrivilegeCache" where
  "filterTools s env user [] pc = ([], pc)"
| "filterTools s env user (toolDesc # toolDescs) pc =
     (case Get (catalog s) (desc_Name toolDesc) of
        None \<Rightarrow> filterTools s env user toolDescs pc
      | Some tool \<Rightarrow>
         (let args = [''database'' \<mapsto> VString (DefaultDBName env)] in
          (case checkToolPermission env user tool args pc of
             (None, pc') \<Rightarrow>
               (case filterTools s env user toolDescs pc' of
                  (filtered, pc'') \<Rightarrow> (toolDesc # filtered, pc''))
           | (Some err, pc') \<Rightarrow> filterTools s env user toolDescs pc')))"

definition filterToolsByPermission ::
  "McpServer \<Rightarrow> Env \<Rightarrow> string \<Rightarrow> McpToolDescription list \<Rightarrow> PrivilegeCache
     \<Rightarrow> McpToolDescription list \<times> PrivilegeCache" where
  "filterToolsByPermission s env user toolDescs pc =
     (if \<not> AuthorizationEnabled env then (toolDescs, pc)
      else filterTools s env user toolDescs pc)"

text \<open>The user name of a request: \<^verbatim>\<open>"anonymous"\<close> when the context has none.\<close>

definition callerName :: "GinContext \<Rightarrow> string" where
  "callerName c = (if username c = [] then ''anonymous'' else username c)"

text \<open>\<^verbatim>\<open>func (s *McpServer) handleInitialize(c *gin.Context, req *McpRequest)\<close>\<close>

definition handleInitialize :: "McpServer \<Rightarrow> GinContext \<Rightarrow> McpRequest \<Rightarrow> GinContext" where
  "handleInitialize s c req =
     (let returnVersion = getProtocolVersion c req in
      if (case Params req ParamProtocolVersion of
            Some (VString protocolVersion) \<Rightarrow>
              protocolVersion \<noteq> ''2025-03-26'' \<and> protocolVersion \<noteq> ''2025-06-18''
          | _ \<Rightarrow> False)
      then returnError req ErrorCodeInvalidParams ''Unsupported protocol version''
             (VMap [(''supported'', VString ''2025-06-18, 2025-03-26'')]) c
      else
        (let result =
               \<lparr>ProtocolVersion = returnVersion,
                Capabilities =
                  \<lparr>Tools = Some \<lparr>tools_ListChanged = False\<rparr>,
                   Resources = Some \<lparr>resources_Subscribe = False,
                                     resources_ListChanged = False\<rparr>,
                   Prompts = Some \<lparr>prompts_ListChanged = False\<rparr>,
                   Logging = Some (),
                   Experimental = Some \<lparr>StructuredOutput = True\<rparr>\<rparr>,
                ServerInfo =
                  \<lparr>info_Name = ''milvus-mcp-server'', info_Version = returnVersion,
                   info_Title = ''Milvus Vector Database MCP Server''\<rparr>\<rparr>
         in c_Header returnVersion (returnSuccess req (InitializeResult result) c)))"

text \<open>\<^verbatim>\<open>func (s *McpServer) handleToolsList(c *gin.Context, req *McpRequest)\<close>\<close>

definition handleToolsList ::
  "McpServer \<Rightarrow> Env \<Rightarrow> GinContext \<Rightarrow> McpRequest \<Rightarrow> PrivilegeCache
     \<Rightarrow> GinContext \<times> PrivilegeCache" where
  "handleToolsList s env c req pc =
     (let user = callerName c;
          toolDescs = List (catalog s)
      in case filterToolsByPermission s env user toolDescs pc of
           (filteredTools, pc') \<Rightarrow>
             (let result = \<lparr>list_Tools = filteredTools, NextCursor = []\<rparr>;
                  protocolVersion = getProtocolVersion c req
              in (c_Header protocolVersion (returnSuccess req (ToolsListResult result) c),
                  pc')))"

text \<open>
  The arguments of a \<^verbatim>\<open>tools/call\<close> request: the object under \<^verbatim>\<open>"arguments"\<close>, or the
  empty map when the parameter is absent or not an object.
\<close>

definition toolArgsOf :: "McpRequest \<Rightarrow> ToolArgs" where
  "toolArgsOf req =
     (case Params req ''arguments'' of
        Some (VMap arguments) \<Rightarrow> map_of arguments
      | _ \<Rightarrow> Map.empty)"

text \<open>\<^verbatim>\<open>func (s *McpServer) handleToolsCall(c *gin.Context, req *McpRequest)\<close>\<close>

definition handleToolsCall ::
  "McpServer \<Rightarrow> Env \<Rightarrow> GinContext \<Rightarrow> McpRequest \<Rightarrow> PrivilegeCache
     \<Rightarrow> GinContext \<times> PrivilegeCache" where
  "handleToolsCall s env c req pc =
     (case (case Params req ''name'' of Some (VString toolName) \<Rightarrow> Some toolName
            | _ \<Rightarrow> None) of
        None \<Rightarrow>
          (returnError req ErrorCodeInvalidParams ''Tool name is required'' VNil c, pc)
      | Some toolName \<Rightarrow>
         (if toolName = []
          then (returnError req ErrorCodeInvalidParams ''Tool name is required'' VNil c, pc)
          else
           (let toolArgs = toolArgsOf req in
            (case Get (catalog s) toolName of
               None \<Rightarrow>
                 (returnError req ErrorCodeMethodNotFound (''Tool not found: '' @ toolName)
                    VNil c, pc)
             | Some tool \<Rightarrow>
                (let user = callerName c in
                 (case checkToolPermission env user tool toolArgs pc of
                    (Some err, pc') \<Rightarrow>
                      (returnToolResult req
                         \<lparr>mcp_Content = [\<lparr>content_Type = ''text'',
                                          Text = ''Permission denied: '' @ err\<rparr>],
                          mcp_IsError = True, mcp_StructuredContent = VNil\<rparr> c, pc')
                  | (None, pc') \<Rightarrow>
                     (case Execute tool toolArgs of
                        Inl err \<Rightarrow>
                          (returnToolResult req
                             \<lparr>mcp_Content = [\<lparr>content_Type = ''text'',
                                              Text = ''Error: '' @ err\<rparr>],
                              mcp_IsError = True, mcp_StructuredContent = VNil\<rparr> c, pc')
                      | Inr result \<Rightarrow>
                         (let mcpResult =
                                \<lparr>mcp_Content = Content result, mcp_IsError = IsError result,
                                 mcp_StructuredContent = StructuredContent result\<rparr>;
                              c' = returnToolResult req mcpResult c;
                              protocolVersion = getProtocolVersion c' req
                          in (c_Header protocolVersion c', pc')))))))))"

text \<open>
  \<^verbatim>\<open>func (s *McpServer) handlePing(c *gin.Context, req *McpRequest)\<close>; \<open>now\<close> is the text
  of \<^verbatim>\<open>time.Now().Format(time.RFC3339)\<close>.
\<close>

definition handlePing :: "McpServer \<Rightarrow> string \<Rightarrow> GinContext \<Rightarrow> McpRequest \<Rightarrow> GinContext" where
  "handlePing s now c req =
     (let protocolVersion = getProtocolVersion c req;
          result =
            [(''status'', VString ''healthy''),
             (''timestamp'', VString now),
             (''protocolVersion'', VString protocolVersion),
             (''serverVersion'', VString protocolVersion),
             (''toolsCount'', VInt (int (length (tools (catalog s)))))]
      in c_Header protocolVersion (returnSuccess req (MapResult result) c))"

definition handleNotificationsInitialized ::
  "McpServer \<Rightarrow> GinContext \<Rightarrow> McpRequest \<Rightarrow> GinContext" where
  "handleNotificationsInitialized s c req =
     (let result = [(''acknowledged'', VBool True)];
          protocolVersion = getProtocolVersion c req
      in c_Header protocolVersion (returnSuccess req (MapResult result) c))"

definition handlePromptsList :: "McpServer \<Rightarrow> GinContext \<Rightarrow> McpRequest \<Rightarrow> GinContext" where
  "handlePromptsList s c req =
     (let result = [(''prompts'', VSlice [])];
          protocolVersion = getProtocolVersion c req
      in c_Header protocolVersion (returnSuccess req (MapResult result) c))"

definition handleResourcesList :: "McpServer \<Rightarrow> GinContext \<Rightarrow> McpRequest \<Rightarrow> GinContext" where
  "handleResourcesList s c req =
     (let result = [(''resources'', VSlice [])];
          protocolVersion = getProtocolVersion c req
      in c_Header protocolVersion (returnSuccess req (MapResult result) c))"

definition handleResourceTemplatesList ::
  "McpServer \<Rightarrow> GinContext \<Rightarrow> McpRequest \<Rightarrow> GinContext" where
  "handleResourceTemplatesList s c req =
     (let result = [(''resourceTemplates'', VSlice [])];
          protocolVersion = getProtocolVersion c req
      in c_Header protocolVersion (returnSuccess req (MapResult result) c))"

text \<open>
  \<^verbatim>\<open>func (s *McpServer) handleMcpRequest(c *gin.Context)\<close>. The argument \<open>bound\<close> is
  what \<^verbatim>\<open>c.ShouldBindJSON(&req)\<close> gives: \<open>Inl\<close> the decoding error's message, \<open>Inr\<close> the
  decoded request.
\<close>

definition handleMcpRequest ::
  "McpServer \<Rightarrow> Env \<Rightarrow> string \<Rightarrow> GinContext \<Rightarrow> string + McpRequest \<Rightarrow> PrivilegeCache
     \<Rightarrow> GinContext \<times> PrivilegeCache" where
  "handleMcpRequest s env now c bound pc =
     (case bound of
        Inl err \<Rightarrow>
          (c_JSON \<lparr>resp_Jsonrpc = ''2.0'', resp_ID = VNil, Result = None,
                   Error = Some \<lparr>Code = ErrorCodeParseError, Message = ''Parse error'',
                                 Data = VString err\<rparr>\<rparr> c, pc)
      | Inr req \<Rightarrow>
         (if Method req = ''initialize'' then (handleInitialize s c req, pc)
          else if Method req = ''tools/list'' then handleToolsList s env c req pc
          else if Method req = ''tools/call'' then handleToolsCall s env c req pc
          else if Method req = ''prompts/list'' then (handlePromptsList s c req, pc)
          else if Method req = ''resources/list'' then (handleResourcesList s c req, pc)
          else if Method req = ''resources/templates/list''
            then (handleResourceTemplatesList s c req, pc)
          else if Method req = ''ping'' then (handlePing s now c req, pc)
          else if Method req = ''notifications/initialized''
            then (handleNotificationsInitialized s c req, pc)
          else (returnError req ErrorCodeMethodNotFound
                  (''Method not found: '' @ Method req) VNil c, pc)))"

section \<open>Notions used to state the properties\<close>

text \<open>
  Some role of the list has an affirmative cached entry for the resource and privilege.
\<close>

definition hasAffirmative :: "PrivilegeCache \<Rightarrow> string list \<Rightarrow> string \<Rightarrow> string \<Rightarrow> bool" where
  "hasAffirmative pc roleNames objectResource objectPrivilege =
     (\<exists>roleName \<in> set roleNames.
        cacheMap pc (roleName, objectResource, objectPrivilege) = Some True)"

text \<open>
  The second cache differs from the first by negative entries at keys the first did not
  have, and by nothing else.
\<close>

definition placeholdersOnly :: "PrivilegeCache \<Rightarrow> PrivilegeCache \<Rightarrow> bool" where
  "placeholdersOnly pc pc' =
     (version pc' = version pc \<and>
      (\<forall>k. cacheMap pc' k = cacheMap pc k \<or>
           (cacheMap pc k = None \<and> cacheMap pc' k = Some False)))"

text \<open>The requirement is met by the roles, on the resource computed from the arguments.\<close>

definition requirementMet ::
  "Env \<Rightarrow> PrivilegeCache \<Rightarrow> string list \<Rightarrow> string \<Rightarrow> ToolArgs \<Rightarrow> PrivilegeRequirement \<Rightarrow> bool" where
  "requirementMet env pc roleNames dbName args privilege =
     hasAffirmative pc roleNames (objectResourceOf env dbName args privilege)
       (ObjectPrivilege privilege)"

text \<open>No role of the list has an affirmative cached entry, for any resource and privilege.\<close>

definition noAffirmative :: "PrivilegeCache \<Rightarrow> string list \<Rightarrow> bool" where
  "noAffirmative pc roleNames =
     (\<forall>roleName \<in> set roleNames. \<forall>objectResource objectPrivilege.
        cacheMap pc (roleName, objectResource, objectPrivilege) \<noteq> Some True)"

text \<open>The caller has no affirmative cached privilege: none of its roles has, nor the public role.\<close>

definition noGrants :: "Env \<Rightarrow> string \<Rightarrow> PrivilegeCache \<Rightarrow> bool" where
  "noGrants env user pc =
     (\<forall>roles. GetRole env user = Inr roles \<longrightarrow> noAffirmative pc (roles @ [RolePublic env]))"

text \<open>
  The entries of the registry have distinct names and each tool is stored under its own
  name, as in a catalog built by \<^verbatim>\<open>register\<close> from the empty map.
\<close>

definition catalogKeyed :: "ToolsCatalog \<Rightarrow> bool" where
  "catalogKeyed tc =
     (distinct (map fst (tools tc)) \<and> (\<forall>(name, tool) \<in> set (tools tc). Name tool = name))"

section \<open>Example inputs\<close>

text \<open>
  An environment with authorization switched on, in which only \<^verbatim>\<open>root\<close> has a role; a
  cache with no entry; and the \<^verbatim>\<open>data.insert\<close> tool as \<^verbatim>\<open>registerAll\<close> registers it.
\<close>

definition exampleEnv :: Env where
  "exampleEnv =
     \<lparr>AuthorizationEnabled = True,
      GetRole = (\<lambda>user. if user = ''root'' then Inr [''admin''] else Inr []),
      RolePublic = ''public'',
      DefaultDBName = ''default'',
      PolicyForResource =
        (\<lambda>dbName objectType objectName. objectType @ ''-'' @ dbName @ ''.'' @ objectName),
      proto_Marshal = (\<lambda>schema. Inr []),
      Errorf = (\<lambda>format. format)\<rparr>"

definition emptyCache :: PrivilegeCache where
  "emptyCache = \<lparr>cacheMap = Map.empty, version = 0\<rparr>"

definition insertTool :: Tool where
  "insertTool =
     \<lparr>Name = ToolDataInsertName, Title = ToolDataInsertTitle,
      Description = ToolDataInsertDescription, Execute = insertData,
      InputSchema = Some simpleCollectionSchema, OutputSchema = None,
      RequiredPrivileges =
        [\<lparr>ObjectType = ObjectTypeCollection, ObjectPrivilege = PrivInsert,
          ObjectNameField = ParamCollectionNameKey\<rparr>]\<rparr>"

text \<open>
  Callbacks and a delegated component for the example server: creating a collection
  succeeds, creating an index fails. The server is the one \<^verbatim>\<open>NewMcpServer\<close> builds. The
  example caller is \<^verbatim>\<open>alice\<close>, whose requests carry the older protocol version in the
  header.
\<close>

definition exampleDelegated :: DelegatedTools where
  "exampleDelegated =
     \<lparr>listCollections = (\<lambda>args. Inl ''proxy not ready''),
      describeCollection = (\<lambda>args. Inl ''proxy not ready''),
      dropCollection = (\<lambda>args. Inl ''proxy not ready''),
      searchVectors = (\<lambda>args. Inl ''proxy not ready'')\<rparr>"

definition exampleProxy :: ProxyComponent where
  "exampleProxy =
     \<lparr>CreateCollection = (\<lambda>req. Inr (Some \<lparr>status_Code = 0, status_Reason = []\<rparr>)),
      CreateIndex = (\<lambda>req. Inl ''index node unavailable'')\<rparr>"

definition exampleServer :: McpServer where
  "exampleServer = NewMcpServer exampleEnv exampleDelegated exampleProxy"

definition exampleContext :: GinContext where
  "exampleContext =
     \<lparr>requestProtocolHeader = ''2025-03-26'', username = ''alice'',
      responseBody = None, responseProtocolHeader = None\<rparr>"

definition initializeRequest :: McpRequest where
  "initializeRequest =
     \<lparr>Jsonrpc = ''2.0'', ID = VFloat64 1, Method = ''initialize'',
      Params = [''protocolVersion'' \<mapsto> VString ''2025-06-18'']\<rparr>"

definition insertRequest :: McpRequest where
  "insertRequest =
     \<lparr>Jsonrpc = ''2.0'', ID = VFloat64 7, Method = ''tools/call'',
      Params = [''name'' \<mapsto> VString ''data.insert'',
                ''arguments'' \<mapsto> VMap [(''collection_name'', VString ''docs'')]]\<rparr>"

definition oldVersionRequest :: McpRequest where
  "oldVersionRequest =
     \<lparr>Jsonrpc = ''2.0'', ID = VString ''init-1'', Method = ''initialize'',
      Params = [''protocolVersion'' \<mapsto> VString ''2024-11-05'']\<rparr>"

definition unnamedCallRequest :: McpRequest where
  "unnamedCallRequest =
     \<lparr>Jsonrpc = ''2.0'', ID = VFloat64 3, Method = ''tools/call'',
      Params = [''name'' \<mapsto> VFloat64 5]\<rparr>"

definition unknownToolRequest :: McpRequest where
  "unknownToolRequest =
     \<lparr>Jsonrpc = ''2.0'', ID = VFloat64 4, Method = ''tools/call'',
      Params = [''name'' \<mapsto> VString ''data.update'']\<rparr>"

definition pingRequest :: McpRequest where
  "pingRequest = \<lparr>Jsonrpc = ''2.0'', ID = VFloat64 9, Method = ''ping'', Params = Map.empty\<rparr>"

text \<open>
  Arguments for \<^verbatim>\<open>collection.create\<close> as a JSON request gives them, with dimension 128
  and with dimension 0, and the request the first ones lead to.
\<close>

definition createArgs :: ToolArgs where
  "createArgs = [''collection_name'' \<mapsto> VString ''docs'', ''dimension'' \<mapsto> VFloat64 128]"

definition zeroDimensionArgs :: ToolArgs where
  "zeroDimensionArgs =
     [''collection_name'' \<mapsto> VString ''docs'', ''dimension'' \<mapsto> VFloat64 0]"

definition docsRequest :: CreateCollectionRequest where
  "docsRequest = \<lparr>cc_DbName = ''default'', cc_CollectionName = ''docs'', cc_Schema = []\<rparr>"

text \<open>A call of \<^verbatim>\<open>collection.create\<close> with dimension 0.\<close>

definition zeroDimensionRequest :: McpRequest where
  "zeroDimensionRequest =
     \<lparr>Jsonrpc = ''2.0'', ID = VFloat64 8, Method = ''tools/call'',
      Params = [''name'' \<mapsto> VString ''collection.create'',
                ''arguments'' \<mapsto> VMap [(''collection_name'', VString ''docs''),
                                          (''dimension'', VFloat64 0)]]\<rparr>"

text \<open>A \<^verbatim>\<open>tools/list\<close> request.\<close>

definition listRequest :: McpRequest where
  "listRequest =
     \<lparr>Jsonrpc = ''2.0'', ID = VFloat64 2, Method = ''tools/list'', Params = Map.empty\<rparr>"

section \<open>Unfolding rules for the constants\<close>

lemmas key_defs =
  ParamDatabaseKey_def ParamCollectionNameKey_def ParamDimensionKey_def
  ParamMetricTypeKey_def FieldPrimaryIDName_def FieldVectorName_def TypeParamDimKey_def
  DefaultCollectionDescription_def DefaultIndexName_def DefaultIndexType_def
  DefaultMetricType_def IndexParamIndexTypeKey_def IndexParamMetricTypeKey_def
  IndexParamParamsKey_def

lemmas rbac_defs =
  ObjectTypeDatabase_def ObjectTypeCollection_def PrivShowCollections_def
  PrivCreateCollection_def PrivDescribeCollection_def PrivDropCollection_def
  PrivInsert_def PrivSearch_def PrivQuery_def PrivDelete_def PrivCreateIndex_def
  PrivDescribeIndex_def

lemmas tool_name_defs =
  ToolCollectionListName_def ToolCollectionCreateName_def ToolCollectionDescribeName_def
  ToolCollectionDropName_def ToolDataInsertName_def ToolDataSearchName_def
  ToolDataQueryName_def ToolDataDeleteName_def ToolIndexCreateName_def
  ToolIndexDescribeName_def


section \<open>The privilege check\<close>

lemma placeholdersOnly_refl: "placeholdersOnly pc pc"
  by (simp add: placeholdersOnly_def)

lemma placeholdersOnly_trans:
  "placeholdersOnly a b \<Longrightarrow> placeholdersOnly b c \<Longrightarrow> placeholdersOnly a c"
  unfolding placeholdersOnly_def by (metis option.distinct(1))

lemma placeholdersOnly_affirmative:
  "placeholdersOnly pc pc' \<Longrightarrow> (cacheMap pc' k = Some True) = (cacheMap pc k = Some True)"
  unfolding placeholdersOnly_def by (metis option.inject option.distinct(1))

lemma placeholdersOnly_hasAffirmative:
  "placeholdersOnly pc pc' \<Longrightarrow> hasAffirmative pc' rs res priv = hasAffirmative pc rs res priv"
  by (simp add: hasAffirmative_def placeholdersOnly_affirmative)

lemma placeholdersOnly_negative:
  "placeholdersOnly pc pc' \<Longrightarrow> cacheMap pc k = Some False \<Longrightarrow> cacheMap pc' k = Some False"
  unfolding placeholdersOnly_def by (metis option.distinct(1))

lemma placeholdersOnly_Set:
  "cacheMap pc (r, res, priv) = None \<Longrightarrow>
   placeholdersOnly pc (SetPrivilegeCache r res priv False (version pc) pc)"
  by (simp add: placeholdersOnly_def SetPrivilegeCache_def)

lemma scanRoles_sound:
  "scanRoles roleNames res priv pc = (b, pc') \<Longrightarrow>
     b = hasAffirmative pc roleNames res priv \<and> placeholdersOnly pc pc' \<and>
     (\<not> b \<longrightarrow> (\<forall>r \<in> set roleNames. cacheMap pc' (r, res, priv) = Some False))"
proof (induction roleNames arbitrary: pc)
  case Nil
  then show ?case by (simp add: hasAffirmative_def placeholdersOnly_refl)
next
  case (Cons r rs)
  show ?case
  proof (cases "cacheMap pc (r, res, priv)")
    case None
    let ?pc1 = "SetPrivilegeCache r res priv False (version pc) pc"
    have step: "placeholdersOnly pc ?pc1" using None by (rule placeholdersOnly_Set)
    have written: "cacheMap ?pc1 (r, res, priv) = Some False"
      by (simp add: SetPrivilegeCache_def)
    from Cons.prems None have run: "scanRoles rs res priv ?pc1 = (b, pc')"
      by (simp add: GetPrivilegeCache_def)
    from Cons.IH [OF run] have
      b: "b = hasAffirmative ?pc1 rs res priv" and
      ext: "placeholdersOnly ?pc1 pc'" and
      neg: "\<not> b \<longrightarrow> (\<forall>x \<in> set rs. cacheMap pc' (x, res, priv) = Some False)"
      by simp_all
    have "hasAffirmative ?pc1 rs res priv = hasAffirmative pc rs res priv"
      using step by (rule placeholdersOnly_hasAffirmative)
    with b None have "b = hasAffirmative pc (r # rs) res priv"
      by (simp add: hasAffirmative_def)
    moreover have "placeholdersOnly pc pc'"
      using step ext by (rule placeholdersOnly_trans)
    moreover have "cacheMap pc' (r, res, priv) = Some False"
      using ext written by (rule placeholdersOnly_negative)
    ultimately show ?thesis using neg by simp
  next
    case (Some isPermit)
    show ?thesis
    proof (cases isPermit)
      case True
      with Some Cons.prems show ?thesis
        by (auto simp: GetPrivilegeCache_def hasAffirmative_def placeholdersOnly_refl)
    next
      case False
      with Some Cons.prems have run: "scanRoles rs res priv pc = (b, pc')"
        by (simp add: GetPrivilegeCache_def)
      from Cons.IH [OF run] have
        b: "b = hasAffirmative pc rs res priv" and
        ext: "placeholdersOnly pc pc'" and
        neg: "\<not> b \<longrightarrow> (\<forall>x \<in> set rs. cacheMap pc' (x, res, priv) = Some False)"
        by simp_all
      from b Some False have "b = hasAffirmative pc (r # rs) res priv"
        by (simp add: hasAffirmative_def)
      moreover have "cacheMap pc' (r, res, priv) = Some False"
        using ext Some False by (simp add: placeholdersOnly_negative)
      ultimately show ?thesis using ext neg by simp
    qed
  qed
qed

lemma requirementMet_placeholdersOnly:
  "placeholdersOnly pc pc' \<Longrightarrow>
     requirementMet env pc' rs db args p = requirementMet env pc rs db args p"
  by (simp add: requirementMet_def placeholdersOnly_hasAffirmative)

lemma checkPrivileges_sound:
  "checkPrivileges env rs db args reqs pc = (e, pc') \<Longrightarrow>
     placeholdersOnly pc pc' \<and>
     (case find (\<lambda>p. \<not> requirementMet env pc rs db args p) reqs of
        None \<Rightarrow> e = None
      | Some p \<Rightarrow>
          e = Some (deniedMessage (ObjectPrivilege p) (ObjectType p) (objectNameOf db args p)) \<and>
          (\<forall>r \<in> set rs.
             cacheMap pc' (r, objectResourceOf env db args p, ObjectPrivilege p) = Some False))"
proof (induction reqs arbitrary: pc)
  case Nil
  then show ?case by (simp add: placeholdersOnly_refl)
next
  case (Cons p ps)
  obtain b pc1 where scan:
    "scanRoles rs (objectResourceOf env db args p) (ObjectPrivilege p) pc = (b, pc1)"
    by (cases "scanRoles rs (objectResourceOf env db args p) (ObjectPrivilege p) pc")
  from scanRoles_sound [OF scan] have
    b: "b = requirementMet env pc rs db args p" and
    ext: "placeholdersOnly pc pc1" and
    neg: "\<not> b \<longrightarrow> (\<forall>r \<in> set rs.
            cacheMap pc1 (r, objectResourceOf env db args p, ObjectPrivilege p) = Some False)"
    by (simp_all add: requirementMet_def)
  show ?case
  proof (cases b)
    case False
    with Cons.prems scan have "e = Some (deniedMessage (ObjectPrivilege p) (ObjectType p)
        (objectNameOf db args p))" and "pc' = pc1"
      by simp_all
    with False b ext neg show ?thesis by simp
  next
    case True
    with Cons.prems scan have run: "checkPrivileges env rs db args ps pc1 = (e, pc')"
      by simp
    have same: "(\<lambda>q. \<not> requirementMet env pc1 rs db args q) =
                (\<lambda>q. \<not> requirementMet env pc rs db args q)"
      using ext by (simp add: requirementMet_placeholdersOnly)
    from Cons.IH [OF run] same True b ext show ?thesis
      by (auto intro: placeholdersOnly_trans)
  qed
qed

lemma checkToolPermission_placeholdersOnly:
  "placeholdersOnly pc (snd (checkToolPermission env user tool args pc))"
proof -
  have "placeholdersOnly pc (snd (checkPrivileges env rs db args reqs pc))" for rs db reqs
    using checkPrivileges_sound [of env rs db args reqs pc] 
    by (cases "checkPrivileges env rs db args reqs pc") simp
  then show ?thesis
    by (simp add: checkToolPermission_def placeholdersOnly_refl Let_def split: sum.splits)
qed

text \<open>
  C1. When the role lookup succeeds, \<^verbatim>\<open>checkToolPermission\<close> returns no error exactly
  when authorization is disabled, or the tool has no requirement, or every requirement
  has, among the principal's roles followed by the public role, one with an affirmative
  cached entry for (role, resource, privilege). The cache changes only by negative
  entries written where there was none, so no miss grants anything. When authorization
  is enabled and a requirement is unmet, the error is the one of the first unmet
  requirement and names its privilege, object type and object name, and every role then
  has a negative entry for that requirement.
\<close>

theorem checkToolPermission_decision:
  "GetRole env user = Inr roles \<Longrightarrow>
   roleNames = roles @ [RolePublic env] \<Longrightarrow>
   dbName = GetString args ''database'' (DefaultDBName env) \<Longrightarrow>
   checkToolPermission env user tool args pc = (e, pc') \<Longrightarrow>
     ((e = None) =
        (\<not> AuthorizationEnabled env \<or> RequiredPrivileges tool = [] \<or>
         (\<forall>p \<in> set (RequiredPrivileges tool).
            \<exists>r \<in> set roleNames.
              cacheMap pc (r, objectResourceOf env dbName args p, ObjectPrivilege p)
                = Some True))) \<and>
     version pc' = version pc \<and>
     (\<forall>k. cacheMap pc' k = cacheMap pc k \<or>
          (cacheMap pc k = None \<and> cacheMap pc' k = Some False)) \<and>
     (\<forall>p. AuthorizationEnabled env \<and>
          find (\<lambda>p. \<not> (\<exists>r \<in> set roleNames.
                  cacheMap pc (r, objectResourceOf env dbName args p, ObjectPrivilege p)
                    = Some True))
            (RequiredPrivileges tool) = Some p \<longrightarrow>
          e = Some (''permission denied: '' @ ObjectPrivilege p @ '' privilege required on ''
                      @ ObjectType p @ '':'' @ objectNameOf dbName args p) \<and>
          (\<forall>r \<in> set roleNames.
             cacheMap pc' (r, objectResourceOf env dbName args p, ObjectPrivilege p)
               = Some False))"
proof -
  assume role: "GetRole env user = Inr roles"
    and rn: "roleNames = roles @ [RolePublic env]"
    and db: "dbName = GetString args ''database'' (DefaultDBName env)"
    and run: "checkToolPermission env user tool args pc = (e, pc')"
  let ?met = "\<lambda>p. \<exists>r \<in> set roleNames.
      cacheMap pc (r, objectResourceOf env dbName args p, ObjectPrivilege p) = Some True"
  have met: "requirementMet env pc roleNames dbName args = ?met"
    by (simp add: requirementMet_def hasAffirmative_def fun_eq_iff)
  have ext: "placeholdersOnly pc pc'"
    using checkToolPermission_placeholdersOnly [of pc env user tool args] run by simp
  show ?thesis
  proof (cases "AuthorizationEnabled env \<and> RequiredPrivileges tool \<noteq> []")
    case False
    with run have "e = None" by (auto simp: checkToolPermission_def split: if_splits)
    moreover have "find (\<lambda>p. \<not> ?met p) (RequiredPrivileges tool) \<noteq> Some p"
      if "RequiredPrivileges tool = []" for p using that by simp
    ultimately show ?thesis using False ext unfolding placeholdersOnly_def by auto
  next
    case True
    define unmet where "unmet = (\<lambda>p. \<not> ?met p)"
    from True run role rn db have
      "checkPrivileges env roleNames dbName args (RequiredPrivileges tool) pc = (e, pc')"
      by (simp add: checkToolPermission_def Let_def)
    from checkPrivileges_sound [OF this] have
      res: "case find unmet (RequiredPrivileges tool) of
              None \<Rightarrow> e = None
            | Some p \<Rightarrow>
                e = Some (deniedMessage (ObjectPrivilege p) (ObjectType p)
                            (objectNameOf dbName args p)) \<and>
                (\<forall>r \<in> set roleNames.
                   cacheMap pc' (r, objectResourceOf env dbName args p, ObjectPrivilege p)
                     = Some False)"
      by (simp add: met unmet_def)
    have iff: "(e = None) = (\<forall>p \<in> set (RequiredPrivileges tool). ?met p)"
    proof (cases "find unmet (RequiredPrivileges tool)")
      case None
      then have "\<forall>p \<in> set (RequiredPrivileges tool). \<not> unmet p"
        by (simp add: find_None_iff)
      then have "\<forall>p \<in> set (RequiredPrivileges tool). ?met p"
        by (simp add: unmet_def)
      moreover from res None have "e = None" by simp
      ultimately show ?thesis by blast
    next
      case (Some p)
      then have "p \<in> set (RequiredPrivileges tool)" and "unmet p"
        by (auto simp: find_Some_iff)
      then have "\<not> (\<forall>p \<in> set (RequiredPrivileges tool). ?met p)"
        unfolding unmet_def by blast
      moreover from res Some have "e \<noteq> None" by simp
      ultimately show ?thesis by blast
    qed
    have first: "\<forall>p. find unmet (RequiredPrivileges tool) = Some p \<longrightarrow>
          e = Some (''permission denied: '' @ ObjectPrivilege p @ '' privilege required on ''
                      @ ObjectType p @ '':'' @ objectNameOf dbName args p) \<and>
          (\<forall>r \<in> set roleNames.
             cacheMap pc' (r, objectResourceOf env dbName args p, ObjectPrivilege p)
               = Some False)"
      using res by (auto simp: deniedMessage_def)
    from ext have ver: "version pc' = version pc"
      and keep: "\<forall>k. cacheMap pc' k = cacheMap pc k \<or>
               (cacheMap pc k = None \<and> cacheMap pc' k = Some False)"
      by (simp_all add: placeholdersOnly_def)
    from True have en: "AuthorizationEnabled env" and ne: "RequiredPrivileges tool \<noteq> []"
      by simp_all
    from iff en ne have iff': "(e = None) =
        (\<not> AuthorizationEnabled env \<or> RequiredPrivileges tool = [] \<or>
         (\<forall>p \<in> set (RequiredPrivileges tool). ?met p))"
      by simp
    from iff' ver keep first show ?thesis
      unfolding unmet_def by blast
  qed
qed

theorem checkToolPermission_decision_witness:
  "fst (checkToolPermission exampleEnv ''alice'' insertTool
          [''collection_name'' \<mapsto> VString ''docs''] emptyCache)
     = Some ''permission denied: Insert privilege required on Collection:docs'' \<and>
   cacheMap (snd (checkToolPermission exampleEnv ''alice'' insertTool
          [''collection_name'' \<mapsto> VString ''docs''] emptyCache))
     (''public'', ''Collection-default.docs'', ''Insert'') = Some False"
proof -
  let ?args = "[''collection_name'' \<mapsto> VString ''docs'']"
  let ?run = "checkToolPermission exampleEnv ''alice'' insertTool ?args emptyCache"
  let ?p = "\<lparr>ObjectType = ''Collection'', ObjectPrivilege = ''Insert'',
             ObjectNameField = ''collection_name''\<rparr>"
  have role: "GetRole exampleEnv ''alice'' = Inr []"
    by (simp add: exampleEnv_def)
  have names: "[''public''] = [] @ [RolePublic exampleEnv]"
    by (simp add: exampleEnv_def)
  have db: "''default'' = GetString ?args ''database'' (DefaultDBName exampleEnv)"
    by (simp add: exampleEnv_def GetString_def)
  have run: "?run = (fst ?run, snd ?run)"
    by simp
  have first: "AuthorizationEnabled exampleEnv \<and>
      find (\<lambda>p. \<not> (\<exists>r \<in> set [''public''].
               cacheMap emptyCache (r, objectResourceOf exampleEnv ''default'' ?args p,
                 ObjectPrivilege p) = Some True))
        (RequiredPrivileges insertTool) = Some ?p"
    by (simp add: exampleEnv_def emptyCache_def insertTool_def rbac_defs key_defs)
  have name: "objectNameOf ''default'' ?args ?p = ''docs''"
    by (simp add: objectNameOf_def GetString_def)
  have res: "objectResourceOf exampleEnv ''default'' ?args ?p = ''Collection-default.docs''"
    by (simp add: objectResourceOf_def name exampleEnv_def)
  from checkToolPermission_decision [OF role names db run] first
  have "fst ?run = Some (''permission denied: '' @ ObjectPrivilege ?p
            @ '' privilege required on '' @ ObjectType ?p @ '':''
            @ objectNameOf ''default'' ?args ?p) \<and>
        (\<forall>r \<in> set [''public''].
           cacheMap (snd ?run) (r, objectResourceOf exampleEnv ''default'' ?args ?p,
             ObjectPrivilege ?p) = Some False)"
    by blast
  then show ?thesis
    by (simp add: name res)
qed


section \<open>The registry that \<^verbatim>\<open>registerAll\<close> builds\<close>

lemma registry_names:
  "map fst (tools (NewToolsCatalog env dt px)) =
     [ToolCollectionListName, ToolCollectionCreateName, ToolCollectionDescribeName,
      ToolCollectionDropName, ToolDataInsertName, ToolDataSearchName, ToolDataQueryName,
      ToolDataDeleteName, ToolIndexCreateName, ToolIndexDescribeName]"
  by (simp add: NewToolsCatalog_def registerAll_def register_def tool_name_defs)

lemma registry_insert:
  "Get (NewToolsCatalog env dt px) ''data.insert'' = Some insertTool"
  by (simp add: Get_def NewToolsCatalog_def registerAll_def register_def tool_name_defs insertTool_def)

lemma registry_unknown:
  "Get (NewToolsCatalog env dt px) ''data.update'' = None"
  by (simp add: Get_def NewToolsCatalog_def registerAll_def register_def tool_name_defs)

section \<open>Protocol version\<close>

text \<open>
  C3. The version selected for a response is to follow the priority: a supported
  \<^verbatim>\<open>protocolVersion\<close> parameter first, then a supported header value, then the default
  \<^verbatim>\<open>2025-06-18\<close>; so a supported parameter is selected whatever the header says.
  \<^verbatim>\<open>getProtocolVersion\<close> honours the parameter only when it is \<^verbatim>\<open>2025-03-26\<close>: for a
  request whose parameter is the supported \<^verbatim>\<open>2025-06-18\<close> and whose header is
  \<^verbatim>\<open>2025-03-26\<close>, it selects the header's value.
\<close>

theorem getProtocolVersion_header_beats_parameter:
  "Params initializeRequest ParamProtocolVersion = Some (VString ''2025-06-18'') \<and>
   requestProtocolHeader exampleContext = ''2025-03-26'' \<and>
   getProtocolVersion exampleContext initializeRequest = ''2025-03-26''"
  by (simp add: getProtocolVersion_def exampleContext_def initializeRequest_def
      ParamProtocolVersion_def)

text \<open>
  C7. An \<^verbatim>\<open>initialize\<close> request whose \<^verbatim>\<open>protocolVersion\<close> parameter is a string other
  than the two supported versions gets the error -32602 with the request's identifier and
  no result; the handler changes nothing else in the context, so it sets no
  protocol-version header.
\<close>

theorem handleInitialize_unsupported_version:
  "Params req ParamProtocolVersion = Some (VString v) \<Longrightarrow>
   v \<noteq> ''2025-03-26'' \<Longrightarrow> v \<noteq> ''2025-06-18'' \<Longrightarrow>
     handleInitialize s c req =
       c\<lparr>responseBody := Some
           \<lparr>resp_Jsonrpc = ''2.0'', resp_ID = ID req, Result = None,
            Error = Some \<lparr>Code = - 32602, Message = ''Unsupported protocol version'',
                          Data = VMap [(''supported'', VString ''2025-06-18, 2025-03-26'')]\<rparr>\<rparr>\<rparr> \<and>
     responseProtocolHeader (handleInitialize s c req) = responseProtocolHeader c"
  by (simp add: handleInitialize_def returnError_def c_JSON_def ErrorCodeInvalidParams_def
      Let_def)

theorem handleInitialize_unsupported_version_witness:
  "responseBody (handleInitialize exampleServer exampleContext oldVersionRequest) =
     Some \<lparr>resp_Jsonrpc = ''2.0'', resp_ID = VString ''init-1'', Result = None,
           Error = Some \<lparr>Code = - 32602, Message = ''Unsupported protocol version'',
                         Data = VMap [(''supported'', VString ''2025-06-18, 2025-03-26'')]\<rparr>\<rparr> \<and>
   responseProtocolHeader (handleInitialize exampleServer exampleContext oldVersionRequest)
     = None"
proof -
  have p: "Params oldVersionRequest ParamProtocolVersion = Some (VString ''2024-11-05'')"
    by (simp add: oldVersionRequest_def ParamProtocolVersion_def)
  have a: "''2024-11-05'' \<noteq> ''2025-03-26''" and b: "''2024-11-05'' \<noteq> ''2025-06-18''"
    by simp_all
  from handleInitialize_unsupported_version [OF p a b, of exampleServer exampleContext]
  show ?thesis by (simp add: oldVersionRequest_def exampleContext_def)
qed

section \<open>Tool calls\<close>

text \<open>
  C6. A \<^verbatim>\<open>tools/call\<close> request whose \<^verbatim>\<open>name\<close> is absent, not a string or empty gets
  the error -32602; one whose name is a non-empty string that the registry does not have
  gets the error -32601 with a message naming the tool. Both responses carry the
  request's identifier, and the outcome is this response with the privilege cache as it
  was: it is computed without any tool's callback.
\<close>

theorem handleToolsCall_name_errors:
  "((\<forall>n. Params req ''name'' = Some (VString n) \<longrightarrow> n = []) \<longrightarrow>
      handleToolsCall s env c req pc =
        (c\<lparr>responseBody := Some
            \<lparr>resp_Jsonrpc = ''2.0'', resp_ID = ID req, Result = None,
             Error = Some \<lparr>Code = - 32602, Message = ''Tool name is required'',
                           Data = VNil\<rparr>\<rparr>\<rparr>, pc)) \<and>
   (\<forall>n. Params req ''name'' = Some (VString n) \<and> n \<noteq> [] \<and> Get (catalog s) n = None \<longrightarrow>
      handleToolsCall s env c req pc =
        (c\<lparr>responseBody := Some
            \<lparr>resp_Jsonrpc = ''2.0'', resp_ID = ID req, Result = None,
             Error = Some \<lparr>Code = - 32601, Message = ''Tool not found: '' @ n,
                           Data = VNil\<rparr>\<rparr>\<rparr>, pc))"
  by (auto simp: handleToolsCall_def returnError_def c_JSON_def ErrorCodeInvalidParams_def
      ErrorCodeMethodNotFound_def Let_def split: option.splits go_value.splits)

theorem handleToolsCall_name_errors_witness:
  "responseBody (fst (handleToolsCall exampleServer exampleEnv exampleContext
      unnamedCallRequest emptyCache)) =
     Some \<lparr>resp_Jsonrpc = ''2.0'', resp_ID = VFloat64 3, Result = None,
           Error = Some \<lparr>Code = - 32602, Message = ''Tool name is required'',
                         Data = VNil\<rparr>\<rparr> \<and>
   responseBody (fst (handleToolsCall exampleServer exampleEnv exampleContext
      unknownToolRequest emptyCache)) =
     Some \<lparr>resp_Jsonrpc = ''2.0'', resp_ID = VFloat64 4, Result = None,
           Error = Some \<lparr>Code = - 32601, Message = ''Tool not found: data.update'',
                         Data = VNil\<rparr>\<rparr>"
proof -
  have a: "\<forall>n. Params unnamedCallRequest ''name'' = Some (VString n) \<longrightarrow> n = []"
    by (simp add: unnamedCallRequest_def)
  have b: "Params unknownToolRequest ''name'' = Some (VString ''data.update'') \<and>
      ''data.update'' \<noteq> [] \<and> Get (catalog exampleServer) ''data.update'' = None"
    by (simp add: unknownToolRequest_def exampleServer_def NewMcpServer_def registry_unknown)
  from a handleToolsCall_name_errors
    [of unnamedCallRequest exampleServer exampleEnv exampleContext emptyCache]
  have 1: "handleToolsCall exampleServer exampleEnv exampleContext unnamedCallRequest
      emptyCache =
        (exampleContext\<lparr>responseBody := Some
            \<lparr>resp_Jsonrpc = ''2.0'', resp_ID = ID unnamedCallRequest, Result = None,
             Error = Some \<lparr>Code = - 32602, Message = ''Tool name is required'',
                           Data = VNil\<rparr>\<rparr>\<rparr>, emptyCache)"
    by blast
  from b handleToolsCall_name_errors
    [of unknownToolRequest exampleServer exampleEnv exampleContext emptyCache]
  have 2: "handleToolsCall exampleServer exampleEnv exampleContext unknownToolRequest
      emptyCache =
        (exampleContext\<lparr>responseBody := Some
            \<lparr>resp_Jsonrpc = ''2.0'', resp_ID = ID unknownToolRequest, Result = None,
             Error = Some \<lparr>Code = - 32601, Message = ''Tool not found: '' @ ''data.update'',
                           Data = VNil\<rparr>\<rparr>\<rparr>, emptyCache)"
    by blast
  show ?thesis
    unfolding 1 2 by (simp add: unnamedCallRequest_def unknownToolRequest_def)
qed

lemma insert_denied:
  "checkToolPermission exampleEnv ''alice'' insertTool
     [''collection_name'' \<mapsto> VString ''docs''] emptyCache =
     (Some ''permission denied: Insert privilege required on Collection:docs'',
      \<lparr>cacheMap = [(''public'', ''Collection-default.docs'', ''Insert'') \<mapsto> False],
       version = 0\<rparr>)"
  by (simp add: checkToolPermission_def exampleEnv_def insertTool_def emptyCache_def
      rbac_defs key_defs GetString_def objectResourceOf_def objectNameOf_def
      GetPrivilegeCache_def SetPrivilegeCache_def deniedMessage_def)

lemma insertRequest_args:
  "toolArgsOf insertRequest = [''collection_name'' \<mapsto> VString ''docs'']"
  by (simp add: toolArgsOf_def insertRequest_def)

text \<open>
  C2. When a \<^verbatim>\<open>tools/call\<close> request names a registered tool and the privilege check
  returns an error, the response has the request's identifier, no error object, and as
  result a tool result with \<^verbatim>\<open>isError\<close> set whose text is \<^verbatim>\<open>Permission denied: \<close> followed
  by the check's message.
\<close>

theorem handleToolsCall_permission_denied:
  "Params req ''name'' = Some (VString n) \<Longrightarrow> n \<noteq> [] \<Longrightarrow>
   Get (catalog s) n = Some tool \<Longrightarrow>
   checkToolPermission env (callerName c) tool (toolArgsOf req) pc = (Some err, pc') \<Longrightarrow>
     handleToolsCall s env c req pc =
       (c\<lparr>responseBody := Some
           \<lparr>resp_Jsonrpc = ''2.0'', resp_ID = ID req,
            Result = Some (ToolCallResult
              \<lparr>mcp_Content = [\<lparr>content_Type = ''text'',
                               Text = ''Permission denied: '' @ err\<rparr>],
               mcp_IsError = True, mcp_StructuredContent = VNil\<rparr>),
            Error = None\<rparr>\<rparr>, pc')"
  by (simp add: handleToolsCall_def returnToolResult_def returnSuccess_def c_JSON_def Let_def)

theorem handleToolsCall_permission_denied_witness:
  "responseBody (fst (handleToolsCall exampleServer exampleEnv exampleContext insertRequest
      emptyCache)) =
     Some \<lparr>resp_Jsonrpc = ''2.0'', resp_ID = VFloat64 7,
           Result = Some (ToolCallResult
             \<lparr>mcp_Content = [\<lparr>content_Type = ''text'',
                 Text = ''Permission denied: permission denied: Insert privilege required on Collection:docs''\<rparr>],
              mcp_IsError = True, mcp_StructuredContent = VNil\<rparr>),
           Error = None\<rparr>"
proof -
  have n: "Params insertRequest ''name'' = Some (VString ''data.insert'')"
    by (simp add: insertRequest_def)
  have ne: "''data.insert'' \<noteq> []" by simp
  have g: "Get (catalog exampleServer) ''data.insert'' = Some insertTool"
    by (simp add: exampleServer_def NewMcpServer_def registry_insert)
  have d: "checkToolPermission exampleEnv (callerName exampleContext) insertTool
      (toolArgsOf insertRequest) emptyCache =
     (Some ''permission denied: Insert privilege required on Collection:docs'',
      \<lparr>cacheMap = [(''public'', ''Collection-default.docs'', ''Insert'') \<mapsto> False],
       version = 0\<rparr>)"
    by (simp add: insert_denied insertRequest_args callerName_def exampleContext_def)
  from handleToolsCall_permission_denied [OF n ne g d]
  show ?thesis by (simp add: insertRequest_def)
qed

lemma registry_create:
  "\<exists>tool. Get (NewToolsCatalog env dt px) ''collection.create'' = Some tool \<and>
          Execute tool = (\<lambda>args. fst (createCollection env px args))"
  by (simp add: Get_def NewToolsCatalog_def registerAll_def register_def tool_name_defs)

lemma zeroDimensionRequest_args: "toolArgsOf zeroDimensionRequest = zeroDimensionArgs"
  by (auto simp: toolArgsOf_def zeroDimensionRequest_def zeroDimensionArgs_def fun_eq_iff)

lemma zeroDimension_fails:
  "createCollection env px zeroDimensionArgs = (Inl ''dimension must be positive, got 0'', [])"
  by (simp add: createCollection_def zeroDimensionArgs_def key_defs GetInt_def
      int_of_float64_def ErrDimensionPositive_def format_d_def format_nat.simps)

text \<open>
  C4. Every response that carries a result, a tool result flagged as an error included,
  is to carry the negotiated protocol version in its protocol-version header.
  \<^verbatim>\<open>handleToolsCall\<close> returns right after writing the result of a denied call and of a
  failed execution, before the lines that set the header: the example caller's denied
  \<^verbatim>\<open>data.insert\<close> call gets a result envelope, the version negotiated for it is
  \<^verbatim>\<open>2025-03-26\<close>, and no header is set; nor is one set for a \<^verbatim>\<open>collection.create\<close> call
  that fails on dimension 0.
\<close>

theorem handleToolsCall_early_returns_set_no_header:
  "responseBody (fst (handleToolsCall exampleServer exampleEnv exampleContext insertRequest
      emptyCache)) =
     Some \<lparr>resp_Jsonrpc = ''2.0'', resp_ID = VFloat64 7,
           Result = Some (ToolCallResult
             \<lparr>mcp_Content = [\<lparr>content_Type = ''text'',
                 Text = ''Permission denied: permission denied: Insert privilege required on Collection:docs''\<rparr>],
              mcp_IsError = True, mcp_StructuredContent = VNil\<rparr>),
           Error = None\<rparr> \<and>
   getProtocolVersion exampleContext insertRequest = ''2025-03-26'' \<and>
   responseProtocolHeader (fst (handleToolsCall exampleServer exampleEnv exampleContext
      insertRequest emptyCache)) = None \<and>
   responseBody (fst (handleToolsCall exampleServer
      (exampleEnv\<lparr>AuthorizationEnabled := False\<rparr>) exampleContext zeroDimensionRequest
      emptyCache)) =
     Some \<lparr>resp_Jsonrpc = ''2.0'', resp_ID = VFloat64 8,
           Result = Some (ToolCallResult
             \<lparr>mcp_Content = [\<lparr>content_Type = ''text'',
                 Text = ''Error: dimension must be positive, got 0''\<rparr>],
              mcp_IsError = True, mcp_StructuredContent = VNil\<rparr>),
           Error = None\<rparr> \<and>
   responseProtocolHeader (fst (handleToolsCall exampleServer
      (exampleEnv\<lparr>AuthorizationEnabled := False\<rparr>) exampleContext zeroDimensionRequest
      emptyCache)) = None"
proof -
  have g: "Get (catalog exampleServer) ''data.insert'' = Some insertTool"
    by (simp add: exampleServer_def NewMcpServer_def registry_insert)
  have d: "checkToolPermission exampleEnv (callerName exampleContext) insertTool
      (toolArgsOf insertRequest) emptyCache =
     (Some ''permission denied: Insert privilege required on Collection:docs'',
      \<lparr>cacheMap = [(''public'', ''Collection-default.docs'', ''Insert'') \<mapsto> False],
       version = 0\<rparr>)"
    by (simp add: insert_denied insertRequest_args callerName_def exampleContext_def)
  have v: "getProtocolVersion exampleContext insertRequest = ''2025-03-26''"
    by (simp add: getProtocolVersion_def exampleContext_def insertRequest_def
        ParamProtocolVersion_def)
  have denied: "handleToolsCall exampleServer exampleEnv exampleContext insertRequest
      emptyCache =
      (exampleContext\<lparr>responseBody := Some
           \<lparr>resp_Jsonrpc = ''2.0'', resp_ID = ID insertRequest,
            Result = Some (ToolCallResult
              \<lparr>mcp_Content = [\<lparr>content_Type = ''text'',
                  Text = ''Permission denied: '' @
                    ''permission denied: Insert privilege required on Collection:docs''\<rparr>],
               mcp_IsError = True, mcp_StructuredContent = VNil\<rparr>),
            Error = None\<rparr>\<rparr>,
       \<lparr>cacheMap = [(''public'', ''Collection-default.docs'', ''Insert'') \<mapsto> False],
        version = 0\<rparr>)"
    using g d
    by (simp add: handleToolsCall_def insertRequest_def returnToolResult_def
        returnSuccess_def c_JSON_def Let_def)
  obtain tool where
    g': "Get (catalog exampleServer) ''collection.create'' = Some tool" and
    ex: "Execute tool = (\<lambda>args. fst (createCollection exampleEnv exampleProxy args))"
    using registry_create [of exampleEnv exampleDelegated exampleProxy]
    by (auto simp: exampleServer_def NewMcpServer_def)
  have run: "Execute tool (toolArgsOf zeroDimensionRequest) =
      Inl ''dimension must be positive, got 0''"
    by (simp add: ex zeroDimensionRequest_args zeroDimension_fails)
  have n: "Params zeroDimensionRequest ''name'' = Some (VString ''collection.create'')"
    by (simp add: zeroDimensionRequest_def)
  have failed: "handleToolsCall exampleServer (exampleEnv\<lparr>AuthorizationEnabled := False\<rparr>)
      exampleContext zeroDimensionRequest emptyCache =
      (exampleContext\<lparr>responseBody := Some
           \<lparr>resp_Jsonrpc = ''2.0'', resp_ID = ID zeroDimensionRequest,
            Result = Some (ToolCallResult
              \<lparr>mcp_Content = [\<lparr>content_Type = ''text'',
                  Text = ''Error: '' @ ''dimension must be positive, got 0''\<rparr>],
               mcp_IsError = True, mcp_StructuredContent = VNil\<rparr>),
            Error = None\<rparr>\<rparr>, emptyCache)"
    using g' run n
    by (simp add: handleToolsCall_def checkToolPermission_def returnToolResult_def
        returnSuccess_def c_JSON_def Let_def)
  show ?thesis
    unfolding denied failed using v
    by (simp add: insertRequest_def zeroDimensionRequest_def exampleContext_def)
qed

section \<open>Ping\<close>

text \<open>
  C9. Any two \<^verbatim>\<open>ping\<close> requests to the same server, whatever their callers, times,
  environments and privilege caches, get results whose \<^verbatim>\<open>status\<close> is \<^verbatim>\<open>healthy\<close> and whose
  \<^verbatim>\<open>toolsCount\<close> is the number of tools in the registry, with no privilege filter.
\<close>

theorem handlePing_toolsCount:
  "Method req = ''ping'' \<Longrightarrow> Method req' = ''ping'' \<Longrightarrow>
     (\<exists>m m'.
        responseBody (fst (handleMcpRequest s env now c (Inr req) pc)) =
          Some \<lparr>resp_Jsonrpc = ''2.0'', resp_ID = ID req, Result = Some (MapResult m),
                Error = None\<rparr> \<and>
        responseBody (fst (handleMcpRequest s env' now' c' (Inr req') pc')) =
          Some \<lparr>resp_Jsonrpc = ''2.0'', resp_ID = ID req', Result = Some (MapResult m'),
                Error = None\<rparr> \<and>
        map_of m ''status'' = Some (VString ''healthy'') \<and>
        map_of m' ''status'' = Some (VString ''healthy'') \<and>
        map_of m ''toolsCount'' = Some (VInt (int (length (tools (catalog s))))) \<and>
        map_of m' ''toolsCount'' = Some (VInt (int (length (tools (catalog s))))))"
  by (simp add: handleMcpRequest_def handlePing_def returnSuccess_def c_JSON_def
      c_Header_def Let_def)

theorem handlePing_toolsCount_witness:
  "(\<exists>m. responseBody (fst (handleMcpRequest exampleServer exampleEnv
            ''2026-01-01T00:00:00Z'' exampleContext (Inr pingRequest) emptyCache)) =
          Some \<lparr>resp_Jsonrpc = ''2.0'', resp_ID = VFloat64 9, Result = Some (MapResult m),
                Error = None\<rparr> \<and>
        map_of m ''status'' = Some (VString ''healthy'') \<and>
        map_of m ''toolsCount'' = Some (VInt 10))"
proof -
  have p: "Method pingRequest = ''ping''" by (simp add: pingRequest_def)
  have "length (map fst (tools (catalog exampleServer))) = 10"
    by (simp add: exampleServer_def NewMcpServer_def registry_names)
  then have n: "length (tools (catalog exampleServer)) = 10"
    by simp
  from handlePing_toolsCount [OF p p, of exampleServer exampleEnv "''2026-01-01T00:00:00Z''"
      exampleContext emptyCache exampleEnv "''2026-01-01T00:00:05Z''" exampleContext emptyCache]
  show ?thesis by (auto simp: n pingRequest_def)
qed

section \<open>Creating a collection\<close>

lemma Require_two:
  "Require args [a, b] = None \<longleftrightarrow> args a \<noteq> None \<and> args b \<noteq> None"
  by simp

lemma createCollection_called:
  assumes "CreateCollectionCall req \<in> set (snd (createCollection env px args))"
  shows "args ParamCollectionNameKey \<noteq> None \<and> args ParamDimensionKey \<noteq> None \<and>
         0 < GetInt args ParamDimensionKey 0 \<and>
         cc_DbName req = GetString args ParamDatabaseKey (DefaultDBName env) \<and>
         cc_CollectionName req = GetString args ParamCollectionNameKey [] \<and>
         (\<exists>schema. proto_Marshal env schema = Inr (cc_Schema req)) \<and>
         (\<forall>resp. CreateCollection px req = Inr resp \<and> GetCode resp = 0 \<longrightarrow>
            createCollection env px args =
              (Inr (NewToolResultWithData
                 (MsgCollectionCreateSuccess (GetString args ParamCollectionNameKey [])
                    (GetInt args ParamDimensionKey 0))
                 (VMap
                    [(''collection_name'', VString (GetString args ParamCollectionNameKey [])),
                     (''database'', VString (GetString args ParamDatabaseKey (DefaultDBName env))),
                     (''dimension'', VInt (GetInt args ParamDimensionKey 0)),
                     (''metric_type'',
                        VString (GetString args ParamMetricTypeKey DefaultMetricType)),
                     (''status'', VString ''created'')])),
               [CreateCollectionCall req,
                CreateIndexCall
                  \<lparr>ci_DbName = GetString args ParamDatabaseKey (DefaultDBName env),
                   ci_CollectionName = GetString args ParamCollectionNameKey [],
                   ci_FieldName = FieldVectorName, ci_IndexName = DefaultIndexName,
                   ci_ExtraParams =
                     [(IndexParamIndexTypeKey, DefaultIndexType),
                      (IndexParamMetricTypeKey,
                         GetString args ParamMetricTypeKey DefaultMetricType),
                      (IndexParamParamsKey, ''{\"nlist\": 128}'')]\<rparr>]))"
  using assms
  unfolding createCollection_def Let_def
  by (auto split: option.splits if_splits sum.splits)

lemma createCollection_ignores_CreateIndex:
  "createCollection env (px\<lparr>CreateIndex := outcome\<rparr>) args = createCollection env px args"
  by (simp add: createCollection_def Let_def split: option.splits sum.splits)

lemma createArgs_calls:
  "snd (createCollection exampleEnv exampleProxy createArgs) =
     [CreateCollectionCall docsRequest,
      CreateIndexCall
        \<lparr>ci_DbName = ''default'', ci_CollectionName = ''docs'', ci_FieldName = ''vector'',
         ci_IndexName = ''vector_index'',
         ci_ExtraParams =
           [(''index_type'', ''IVF_FLAT''), (''metric_type'', ''L2''),
            (''params'', ''{\"nlist\": 128}'')]\<rparr>]"
  by (simp add: createCollection_def createArgs_def exampleEnv_def exampleProxy_def
      docsRequest_def key_defs GetString_def GetInt_def int_of_float64_def GetCode_def
      Let_def)

lemma createArgs_reads:
  "createArgs ParamCollectionNameKey \<noteq> None \<and> GetInt createArgs ParamDimensionKey 0 = 128 \<and>
   createArgs ParamMetricTypeKey = None"
  by (simp add: createArgs_def key_defs GetInt_def int_of_float64_def)

lemma zeroDimensionArgs_reads:
  "zeroDimensionArgs ParamCollectionNameKey \<noteq> None \<and>
   zeroDimensionArgs ParamDimensionKey \<noteq> None \<and>
   GetInt zeroDimensionArgs ParamDimensionKey 0 = 0"
  by (simp add: zeroDimensionArgs_def key_defs GetInt_def int_of_float64_def)

lemma docsRequest_ok:
  "CreateCollection exampleProxy docsRequest = Inr (Some \<lparr>status_Code = 0, status_Reason = []\<rparr>) \<and>
   GetCode (Some \<lparr>status_Code = 0, status_Reason = []\<rparr>) = 0"
  by (simp add: exampleProxy_def GetCode_def)

text \<open>
  C8. When \<^verbatim>\<open>createCollection\<close> is called with a collection name, a dimension read as
  128 and no metric type, the schema it builds is serialized, and the delegated
  create-collection operation answers the request built from it with a status of code 0,
  the result is not an error and its structured payload maps \<^verbatim>\<open>dimension\<close> to 128,
  \<^verbatim>\<open>metric_type\<close> to \<^verbatim>\<open>L2\<close> and \<^verbatim>\<open>status\<close> to \<^verbatim>\<open>created\<close>. When the dimension key is
  present and read as 0, the result is the error \<^verbatim>\<open>dimension must be positive, got 0\<close>
  and no delegated call is made.
\<close>

theorem createCollection_dimension_examples:
  "(args ParamCollectionNameKey \<noteq> None \<and> GetInt args ParamDimensionKey 0 = 128 \<and>
    args ParamMetricTypeKey = None \<and>
    proto_Marshal env
      \<lparr>collection_Name = GetString args ParamCollectionNameKey [],
       collection_Description = DefaultCollectionDescription,
       Fields =
         [\<lparr>FieldID = 100, field_Name = FieldPrimaryIDName, IsPrimaryKey = True,
           field_DataType = DataType_Int64, AutoID = True, TypeParams = []\<rparr>,
          \<lparr>FieldID = 101, field_Name = FieldVectorName, IsPrimaryKey = False,
           field_DataType = DataType_FloatVector, AutoID = False,
           TypeParams = [(TypeParamDimKey, ''128'')]\<rparr>]\<rparr> = Inr schemaBytes \<and>
    CreateCollection px
      \<lparr>cc_DbName = GetString args ParamDatabaseKey (DefaultDBName env),
       cc_CollectionName = GetString args ParamCollectionNameKey [],
       cc_Schema = schemaBytes\<rparr> = Inr resp \<and>
    GetCode resp = 0 \<longrightarrow>
      (\<exists>r m. fst (createCollection env px args) = Inr r \<and> \<not> IsError r \<and>
             StructuredContent r = VMap m \<and>
             map_of m ''dimension'' = Some (VInt 128) \<and>
             map_of m ''metric_type'' = Some (VString ''L2'') \<and>
             map_of m ''status'' = Some (VString ''created''))) \<and>
   (args ParamCollectionNameKey \<noteq> None \<and> args ParamDimensionKey \<noteq> None \<and>
    GetInt args ParamDimensionKey 0 = 0 \<longrightarrow>
      createCollection env px args = (Inl ''dimension must be positive, got 0'', []))"
proof (intro conjI impI)
  let ?name = "GetString args ParamCollectionNameKey []"
  let ?db = "GetString args ParamDatabaseKey (DefaultDBName env)"
  let ?schema = "\<lparr>collection_Name = ?name,
       collection_Description = DefaultCollectionDescription,
       Fields =
         [\<lparr>FieldID = 100, field_Name = FieldPrimaryIDName, IsPrimaryKey = True,
           field_DataType = DataType_Int64, AutoID = True, TypeParams = []\<rparr>,
          \<lparr>FieldID = 101, field_Name = FieldVectorName, IsPrimaryKey = False,
           field_DataType = DataType_FloatVector, AutoID = False,
           TypeParams = [(TypeParamDimKey, ''128'')]\<rparr>]\<rparr>"
  let ?req = "\<lparr>cc_DbName = ?db, cc_CollectionName = ?name, cc_Schema = schemaBytes\<rparr>"
  assume h: "args ParamCollectionNameKey \<noteq> None \<and> GetInt args ParamDimensionKey 0 = 128 \<and>
    args ParamMetricTypeKey = None \<and> proto_Marshal env ?schema = Inr schemaBytes \<and>
    CreateCollection px ?req = Inr resp \<and> GetCode resp = 0"
  then have name: "args ParamCollectionNameKey \<noteq> None"
    and dim: "GetInt args ParamDimensionKey 0 = 128"
    and marshal: "proto_Marshal env ?schema = Inr schemaBytes"
    and ok: "CreateCollection px ?req = Inr resp" and code: "GetCode resp = 0"
    and metric: "GetString args ParamMetricTypeKey DefaultMetricType = ''L2''"
    by (simp_all add: GetString_def DefaultMetricType_def)
  have present: "args ParamDimensionKey \<noteq> None"
    using dim by (cases "args ParamDimensionKey") (simp_all add: GetInt_def)
  have digits: "format_d 128 = ''128''"
    by (simp add: format_d_def format_nat.simps)
  from name obtain n where n: "args ParamCollectionNameKey = Some n"
    by blast
  from present obtain d where d: "args ParamDimensionKey = Some d"
    by blast
  have "fst (createCollection env px args) =
      Inr (NewToolResultWithData (MsgCollectionCreateSuccess ?name 128)
        (VMap
           [(''collection_name'', VString ?name),
            (''database'', VString ?db),
            (''dimension'', VInt 128),
            (''metric_type'', VString ''L2''),
            (''status'', VString ''created'')]))"
    unfolding createCollection_def
    by (simp add: n d dim metric digits marshal ok code Let_def)
  then show "\<exists>r m. fst (createCollection env px args) = Inr r \<and> \<not> IsError r \<and>
             StructuredContent r = VMap m \<and>
             map_of m ''dimension'' = Some (VInt 128) \<and>
             map_of m ''metric_type'' = Some (VString ''L2'') \<and>
             map_of m ''status'' = Some (VString ''created'')"
    by (simp add: NewToolResultWithData_def)
next
  assume "args ParamCollectionNameKey \<noteq> None \<and> args ParamDimensionKey \<noteq> None \<and>
    GetInt args ParamDimensionKey 0 = 0"
  then show "createCollection env px args = (Inl ''dimension must be positive, got 0'', [])"
    by (auto simp: createCollection_def ErrDimensionPositive_def format_d_def
        format_nat.simps)
qed

theorem createCollection_dimension_examples_witness:
  "(\<exists>r m. fst (createCollection exampleEnv exampleProxy createArgs) = Inr r \<and> \<not> IsError r \<and>
          StructuredContent r = VMap m \<and>
          map_of m ''dimension'' = Some (VInt 128) \<and>
          map_of m ''metric_type'' = Some (VString ''L2'') \<and>
          map_of m ''status'' = Some (VString ''created'')) \<and>
   createCollection exampleEnv exampleProxy zeroDimensionArgs =
     (Inl ''dimension must be positive, got 0'', [])"
proof -
  have marshal: "proto_Marshal exampleEnv
      \<lparr>collection_Name = GetString createArgs ParamCollectionNameKey [],
       collection_Description = DefaultCollectionDescription,
       Fields =
         [\<lparr>FieldID = 100, field_Name = FieldPrimaryIDName, IsPrimaryKey = True,
           field_DataType = DataType_Int64, AutoID = True, TypeParams = []\<rparr>,
          \<lparr>FieldID = 101, field_Name = FieldVectorName, IsPrimaryKey = False,
           field_DataType = DataType_FloatVector, AutoID = False,
           TypeParams = [(TypeParamDimKey, ''128'')]\<rparr>]\<rparr> = Inr []"
    by (simp add: exampleEnv_def)
  have ok: "CreateCollection exampleProxy
      \<lparr>cc_DbName = GetString createArgs ParamDatabaseKey (DefaultDBName exampleEnv),
       cc_CollectionName = GetString createArgs ParamCollectionNameKey [],
       cc_Schema = []\<rparr> = Inr (Some \<lparr>status_Code = 0, status_Reason = []\<rparr>)"
    by (simp add: exampleProxy_def)
  have code: "GetCode (Some \<lparr>status_Code = 0, status_Reason = []\<rparr>) = 0"
    by (simp add: GetCode_def)
  from createCollection_dimension_examples
    [of createArgs exampleEnv "[]" exampleProxy
      "Some \<lparr>status_Code = 0, status_Reason = []\<rparr>"]
    createArgs_reads marshal ok code
  have first: "\<exists>r m. fst (createCollection exampleEnv exampleProxy createArgs) = Inr r \<and>
          \<not> IsError r \<and> StructuredContent r = VMap m \<and>
          map_of m ''dimension'' = Some (VInt 128) \<and>
          map_of m ''metric_type'' = Some (VString ''L2'') \<and>
          map_of m ''status'' = Some (VString ''created'')"
    by blast
  from createCollection_dimension_examples
    [of zeroDimensionArgs exampleEnv "[]" exampleProxy None]
    zeroDimensionArgs_reads
  have second: "createCollection exampleEnv exampleProxy zeroDimensionArgs =
     (Inl ''dimension must be positive, got 0'', [])"
    by blast
  from first second show ?thesis by blast
qed

text \<open>
  C10. When the delegated create-collection call of \<^verbatim>\<open>createCollection\<close> returns a
  status with code 0, the tool next issues one create-index call for the vector field of
  the same collection, and whatever that call returns, an error included, the tool's
  result is the same: not an error, with \<^verbatim>\<open>status\<close> \<^verbatim>\<open>created\<close>.
\<close>

theorem createCollection_index_outcome_dropped:
  "CreateCollectionCall req \<in> set (snd (createCollection env px args)) \<Longrightarrow>
   CreateCollection px req = Inr resp \<Longrightarrow> GetCode resp = 0 \<Longrightarrow>
     (\<exists>indexReq.
        snd (createCollection env px args) = [CreateCollectionCall req, CreateIndexCall indexReq] \<and>
        ci_DbName indexReq = cc_DbName req \<and>
        ci_CollectionName indexReq = cc_CollectionName req \<and>
        ci_FieldName indexReq = ''vector'') \<and>
     (\<forall>outcome.
        createCollection env (px\<lparr>CreateIndex := outcome\<rparr>) args = createCollection env px args) \<and>
     (\<exists>r m. fst (createCollection env px args) = Inr r \<and> \<not> IsError r \<and>
            StructuredContent r = VMap m \<and>
            map_of m ''status'' = Some (VString ''created''))"
proof -
  assume called: "CreateCollectionCall req \<in> set (snd (createCollection env px args))"
    and ok: "CreateCollection px req = Inr resp" "GetCode resp = 0"
  from createCollection_called [OF called] ok
  have run: "createCollection env px args =
      (Inr (NewToolResultWithData
         (MsgCollectionCreateSuccess (GetString args ParamCollectionNameKey [])
            (GetInt args ParamDimensionKey 0))
         (VMap
            [(''collection_name'', VString (GetString args ParamCollectionNameKey [])),
             (''database'', VString (GetString args ParamDatabaseKey (DefaultDBName env))),
             (''dimension'', VInt (GetInt args ParamDimensionKey 0)),
             (''metric_type'', VString (GetString args ParamMetricTypeKey DefaultMetricType)),
             (''status'', VString ''created'')])),
       [CreateCollectionCall req,
        CreateIndexCall
          \<lparr>ci_DbName = GetString args ParamDatabaseKey (DefaultDBName env),
           ci_CollectionName = GetString args ParamCollectionNameKey [],
           ci_FieldName = FieldVectorName, ci_IndexName = DefaultIndexName,
           ci_ExtraParams =
             [(IndexParamIndexTypeKey, DefaultIndexType),
              (IndexParamMetricTypeKey, GetString args ParamMetricTypeKey DefaultMetricType),
              (IndexParamParamsKey, ''{\"nlist\": 128}'')]\<rparr>])"
    and db: "cc_DbName req = GetString args ParamDatabaseKey (DefaultDBName env)"
    and nm: "cc_CollectionName req = GetString args ParamCollectionNameKey []"
    by blast+
  have calls: "\<exists>indexReq.
        snd (createCollection env px args) = [CreateCollectionCall req, CreateIndexCall indexReq] \<and>
        ci_DbName indexReq = cc_DbName req \<and>
        ci_CollectionName indexReq = cc_CollectionName req \<and>
        ci_FieldName indexReq = ''vector''"
    by (simp add: run db nm FieldVectorName_def)
  have result: "\<exists>r m. fst (createCollection env px args) = Inr r \<and> \<not> IsError r \<and>
            StructuredContent r = VMap m \<and>
            map_of m ''status'' = Some (VString ''created'')"
    by (simp add: run NewToolResultWithData_def)
  from calls result show ?thesis
    by (simp add: createCollection_ignores_CreateIndex)
qed

theorem createCollection_index_outcome_dropped_witness:
  "CreateIndex exampleProxy
     \<lparr>ci_DbName = ''default'', ci_CollectionName = ''docs'', ci_FieldName = ''vector'',
      ci_IndexName = ''vector_index'',
      ci_ExtraParams =
        [(''index_type'', ''IVF_FLAT''), (''metric_type'', ''L2''),
         (''params'', ''{\"nlist\": 128}'')]\<rparr> = Inl ''index node unavailable'' \<and>
   (\<exists>r m. fst (createCollection exampleEnv exampleProxy createArgs) = Inr r \<and> \<not> IsError r \<and>
          StructuredContent r = VMap m \<and>
          map_of m ''status'' = Some (VString ''created'')) \<and>
   createCollection exampleEnv
     (exampleProxy\<lparr>CreateIndex := (\<lambda>indexReq. Inr (Some \<lparr>status_Code = 0, status_Reason = []\<rparr>))\<rparr>)
     createArgs = createCollection exampleEnv exampleProxy createArgs"
proof -
  have called: "CreateCollectionCall docsRequest
      \<in> set (snd (createCollection exampleEnv exampleProxy createArgs))"
    by (simp add: createArgs_calls)
  have ok: "CreateCollection exampleProxy docsRequest =
      Inr (Some \<lparr>status_Code = 0, status_Reason = []\<rparr>)"
    and code: "GetCode (Some \<lparr>status_Code = 0, status_Reason = []\<rparr>) = 0"
    using docsRequest_ok by simp_all
  have fails: "CreateIndex exampleProxy
     \<lparr>ci_DbName = ''default'', ci_CollectionName = ''docs'', ci_FieldName = ''vector'',
      ci_IndexName = ''vector_index'',
      ci_ExtraParams =
        [(''index_type'', ''IVF_FLAT''), (''metric_type'', ''L2''),
         (''params'', ''{\"nlist\": 128}'')]\<rparr> = Inl ''index node unavailable''"
    by (simp add: exampleProxy_def)
  from createCollection_index_outcome_dropped [OF called ok code] fails
  show ?thesis by blast
qed

section \<open>Listing tools\<close>

lemma noAffirmative_placeholdersOnly:
  "placeholdersOnly pc pc' \<Longrightarrow> noAffirmative pc' rs = noAffirmative pc rs"
  by (simp add: noAffirmative_def placeholdersOnly_affirmative)

lemma noGrants_placeholdersOnly:
  "placeholdersOnly pc pc' \<Longrightarrow> noGrants env user pc' = noGrants env user pc"
  by (simp add: noGrants_def noAffirmative_placeholdersOnly)

lemma noAffirmative_unmet:
  "noAffirmative pc rs \<Longrightarrow> \<not> requirementMet env pc rs db args p"
  by (auto simp: noAffirmative_def requirementMet_def hasAffirmative_def)

lemma checkToolPermission_denies:
  assumes en: "AuthorizationEnabled env" and ne: "RequiredPrivileges tool \<noteq> []"
    and ng: "noGrants env user pc"
  shows "fst (checkToolPermission env user tool args pc) \<noteq> None"
proof (cases "GetRole env user")
  case (Inl err)
  with en ne show ?thesis by (simp add: checkToolPermission_def)
next
  case (Inr roles)
  let ?rs = "roles @ [RolePublic env]"
  let ?db = "GetString args ''database'' (DefaultDBName env)"
  from ng Inr have na: "noAffirmative pc ?rs" by (simp add: noGrants_def)
  obtain p ps where reqs: "RequiredPrivileges tool = p # ps"
    using ne by (cases "RequiredPrivileges tool") auto
  obtain e pc' where run:
    "checkPrivileges env ?rs ?db args (RequiredPrivileges tool) pc = (e, pc')"
    by (cases "checkPrivileges env ?rs ?db args (RequiredPrivileges tool) pc")
  have "find (\<lambda>q. \<not> requirementMet env pc ?rs ?db args q) (RequiredPrivileges tool) = Some p"
    using na by (simp add: reqs noAffirmative_unmet)
  with checkPrivileges_sound [OF run] have "e \<noteq> None" by simp
  with en ne Inr run show ?thesis by (simp add: checkToolPermission_def Let_def)
qed

lemma filterTools_sound:
  "filterTools s env user ds pc = (filtered, pc') \<Longrightarrow>
     subseq filtered ds \<and> placeholdersOnly pc pc' \<and>
     (AuthorizationEnabled env \<and> noGrants env user pc \<longrightarrow>
        (\<forall>d \<in> set filtered. \<exists>tool.
           Get (catalog s) (desc_Name d) = Some tool \<and> RequiredPrivileges tool = []))"
proof (induction ds arbitrary: pc filtered pc')
  case Nil
  then show ?case by (simp add: placeholdersOnly_refl)
next
  case (Cons d ds)
  show ?case
  proof (cases "Get (catalog s) (desc_Name d)")
    case None
    with Cons.prems have "filterTools s env user ds pc = (filtered, pc')" by simp
    from Cons.IH [OF this] show ?thesis by auto
  next
    case (Some tool)
    let ?args = "[''database'' \<mapsto> VString (DefaultDBName env)]"
    obtain e pc1 where chk: "checkToolPermission env user tool ?args pc = (e, pc1)"
      by (cases "checkToolPermission env user tool ?args pc")
    have ext1: "placeholdersOnly pc pc1"
      using checkToolPermission_placeholdersOnly [of pc env user tool ?args] chk by simp
    obtain rest pc2 where run: "filterTools s env user ds pc1 = (rest, pc2)"
      by (cases "filterTools s env user ds pc1")
    from Cons.IH [OF run] have
      sub: "subseq rest ds" and ext2: "placeholdersOnly pc1 pc2" and
      free: "AuthorizationEnabled env \<and> noGrants env user pc1 \<longrightarrow>
        (\<forall>d \<in> set rest. \<exists>tool.
           Get (catalog s) (desc_Name d) = Some tool \<and> RequiredPrivileges tool = [])"
      by simp_all
    have ext: "placeholdersOnly pc pc2"
      using ext1 ext2 by (rule placeholdersOnly_trans)
    have ng: "noGrants env user pc1 = noGrants env user pc"
      using ext1 by (rule noGrants_placeholdersOnly)
    show ?thesis
    proof (cases e)
      case None
      with Cons.prems Some chk run have out: "filtered = d # rest" "pc' = pc2"
        by (simp_all add: Let_def)
      have "RequiredPrivileges tool = []"
        if "AuthorizationEnabled env" "noGrants env user pc"
        using checkToolPermission_denies [OF that(1) _ that(2), of tool ?args] chk None
        by auto
      with out sub ext free ng Some show ?thesis by auto
    next
      case (Some err)
      with Cons.prems \<open>Get (catalog s) (desc_Name d) = Some tool\<close> chk run
      have out: "filtered = rest" "pc' = pc2"
        by (simp_all add: Let_def)
      with sub ext free ng show ?thesis by auto
    qed
  qed
qed

lemma catalogKeyed_describe:
  assumes keyed: "catalogKeyed tc" and entry: "(name, tool) \<in> set (tools tc)"
  shows "Get tc (desc_Name (describe tool)) = Some tool"
proof -
  from keyed entry have "Name tool = name" and "distinct (map fst (tools tc))"
    by (auto simp: catalogKeyed_def)
  with entry show ?thesis by (simp add: Get_def describe_def)
qed

lemma registry_keyed: "catalogKeyed (NewToolsCatalog env dt px)"
  by (simp add: catalogKeyed_def NewToolsCatalog_def registerAll_def register_def
      tool_name_defs)

lemma registry_all_require:
  "\<forall>(name, tool) \<in> set (tools (NewToolsCatalog env dt px)). RequiredPrivileges tool \<noteq> []"
  by (simp add: NewToolsCatalog_def registerAll_def register_def tool_name_defs)

text \<open>
  C5. The tools of a \<^verbatim>\<open>tools/list\<close> response are a subsequence, hence a subset, of the
  registry's descriptions. With authorization disabled they are the whole list. With
  authorization enabled and a caller none of whose roles, the public role included, has
  an affirmative cached entry, every listed description names a tool without privilege
  requirements; so in a registry keyed by the tools' names, no tool that declares a
  requirement is listed.
\<close>

theorem handleToolsList_filtered:
  "\<exists>filtered.
     responseBody (fst (handleToolsList s env c req pc)) =
       Some \<lparr>resp_Jsonrpc = ''2.0'', resp_ID = ID req,
             Result = Some (ToolsListResult \<lparr>list_Tools = filtered, NextCursor = []\<rparr>),
             Error = None\<rparr> \<and>
     subseq filtered (List (catalog s)) \<and>
     set filtered \<subseteq> set (List (catalog s)) \<and>
     (\<not> AuthorizationEnabled env \<longrightarrow> filtered = List (catalog s)) \<and>
     (AuthorizationEnabled env \<and>
      (\<forall>roles. GetRole env (callerName c) = Inr roles \<longrightarrow>
         noAffirmative pc (roles @ [RolePublic env])) \<longrightarrow>
        (\<forall>d \<in> set filtered. \<exists>tool.
           Get (catalog s) (desc_Name d) = Some tool \<and> RequiredPrivileges tool = []) \<and>
        (catalogKeyed (catalog s) \<longrightarrow>
           (\<forall>(name, tool) \<in> set (tools (catalog s)).
              RequiredPrivileges tool \<noteq> [] \<longrightarrow> describe tool \<notin> set filtered)))"
proof -
  let ?ds = "List (catalog s)"
  let ?user = "callerName c"
  obtain filtered pc' where run:
    "filterToolsByPermission s env ?user ?ds pc = (filtered, pc')"
    by (cases "filterToolsByPermission s env ?user ?ds pc")
  have body: "responseBody (fst (handleToolsList s env c req pc)) =
       Some \<lparr>resp_Jsonrpc = ''2.0'', resp_ID = ID req,
             Result = Some (ToolsListResult \<lparr>list_Tools = filtered, NextCursor = []\<rparr>),
             Error = None\<rparr>"
    using run
    by (simp add: handleToolsList_def returnSuccess_def c_JSON_def c_Header_def Let_def)
  have off: "filtered = ?ds" if "\<not> AuthorizationEnabled env"
    using run that by (simp add: filterToolsByPermission_def)
  have on: "subseq filtered ?ds \<and>
      (noGrants env ?user pc \<longrightarrow>
        (\<forall>d \<in> set filtered. \<exists>tool.
           Get (catalog s) (desc_Name d) = Some tool \<and> RequiredPrivileges tool = []))"
    if en: "AuthorizationEnabled env"
  proof -
    from run en have "filterTools s env ?user ?ds pc = (filtered, pc')"
      by (simp add: filterToolsByPermission_def)
    from filterTools_sound [OF this] en show ?thesis by simp
  qed
  have sub: "subseq filtered ?ds"
    using off on by (cases "AuthorizationEnabled env") auto
  then have subset: "set filtered \<subseteq> set ?ds"
    by (auto dest: list_emb_set)
  have free: "\<forall>d \<in> set filtered. \<exists>tool.
           Get (catalog s) (desc_Name d) = Some tool \<and> RequiredPrivileges tool = []"
    if "AuthorizationEnabled env" "noGrants env ?user pc"
    using on that by simp
  have excluded: "\<forall>(name, tool) \<in> set (tools (catalog s)).
              RequiredPrivileges tool \<noteq> [] \<longrightarrow> describe tool \<notin> set filtered"
    if en: "AuthorizationEnabled env" and ng: "noGrants env ?user pc"
      and keyed: "catalogKeyed (catalog s)"
  proof (clarify)
    fix name tool
    assume entry: "(name, tool) \<in> set (tools (catalog s))"
      and ne: "RequiredPrivileges tool \<noteq> []"
      and mem: "describe tool \<in> set filtered"
    from free [OF en ng] mem obtain tool' where
      "Get (catalog s) (desc_Name (describe tool)) = Some tool'"
      "RequiredPrivileges tool' = []"
      by blast
    with catalogKeyed_describe [OF keyed entry] ne show False by simp
  qed
  from body sub subset off free excluded show ?thesis
    unfolding noGrants_def by blast
qed

theorem handleToolsList_filtered_witness:
  "(\<exists>filtered.
      responseBody (fst (handleToolsList exampleServer exampleEnv exampleContext listRequest
        emptyCache)) =
        Some \<lparr>resp_Jsonrpc = ''2.0'', resp_ID = VFloat64 2,
              Result = Some (ToolsListResult \<lparr>list_Tools = filtered, NextCursor = []\<rparr>),
              Error = None\<rparr> \<and>
      filtered = []) \<and>
   (\<exists>filtered.
      responseBody (fst (handleToolsList exampleServer
        (exampleEnv\<lparr>AuthorizationEnabled := False\<rparr>) exampleContext listRequest
        emptyCache)) =
        Some \<lparr>resp_Jsonrpc = ''2.0'', resp_ID = VFloat64 2,
              Result = Some (ToolsListResult \<lparr>list_Tools = filtered, NextCursor = []\<rparr>),
              Error = None\<rparr> \<and>
      length filtered = 10)"
proof -
  let ?tc = "catalog exampleServer"
  have tc: "?tc = NewToolsCatalog exampleEnv exampleDelegated exampleProxy"
    by (simp add: exampleServer_def NewMcpServer_def)
  have keyed: "catalogKeyed ?tc"
    by (simp add: tc registry_keyed)
  have require: "\<forall>(name, tool) \<in> set (tools ?tc). RequiredPrivileges tool \<noteq> []"
    unfolding tc by (rule registry_all_require)
  have en: "AuthorizationEnabled exampleEnv"
    by (simp add: exampleEnv_def)
  have none: "\<forall>roles. GetRole exampleEnv (callerName exampleContext) = Inr roles \<longrightarrow>
      noAffirmative emptyCache (roles @ [RolePublic exampleEnv])"
    by (simp add: noAffirmative_def emptyCache_def)
  have id: "ID listRequest = VFloat64 2"
    by (simp add: listRequest_def)
  from handleToolsList_filtered
    [of exampleServer exampleEnv exampleContext listRequest emptyCache]
  obtain filtered where
    body: "responseBody (fst (handleToolsList exampleServer exampleEnv exampleContext
        listRequest emptyCache)) =
        Some \<lparr>resp_Jsonrpc = ''2.0'', resp_ID = ID listRequest,
              Result = Some (ToolsListResult \<lparr>list_Tools = filtered, NextCursor = []\<rparr>),
              Error = None\<rparr>"
    and subset: "set filtered \<subseteq> set (List ?tc)"
    and excluded: "\<forall>(name, tool) \<in> set (tools ?tc).
        RequiredPrivileges tool \<noteq> [] \<longrightarrow> describe tool \<notin> set filtered"
    using en none keyed by blast
  have "d \<notin> set filtered" for d
  proof
    assume mem: "d \<in> set filtered"
    with subset have "d \<in> set (List ?tc)" by blast
    then obtain name tool where "(name, tool) \<in> set (tools ?tc)" and "d = describe tool"
      by (auto simp: List_def)
    with require excluded mem show False by blast
  qed
  then have empty: "filtered = []"
    by (cases filtered) auto
  have off: "\<not> AuthorizationEnabled (exampleEnv\<lparr>AuthorizationEnabled := False\<rparr>)"
    by simp
  from handleToolsList_filtered
    [of exampleServer "exampleEnv\<lparr>AuthorizationEnabled := False\<rparr>" exampleContext
      listRequest emptyCache]
  obtain full where
    body': "responseBody (fst (handleToolsList exampleServer
        (exampleEnv\<lparr>AuthorizationEnabled := False\<rparr>) exampleContext listRequest
        emptyCache)) =
        Some \<lparr>resp_Jsonrpc = ''2.0'', resp_ID = ID listRequest,
              Result = Some (ToolsListResult \<lparr>list_Tools = full, NextCursor = []\<rparr>),
              Error = None\<rparr>"
    and all: "full = List ?tc"
    using off by blast
  have "length (map fst (tools ?tc)) = 10"
    by (simp add: tc registry_names)
  then have ten: "length full = 10"
    by (simp add: all List_def)
  from body empty body' ten id show ?thesis
    by auto
qed

end
